theory Spec2Isabelle
  imports Complex_Main "HOL-Library.Word"
begin

unbundle bit_operations_syntax

section \<open>Oculus Rift S driver (rift-s.c): data model\<close>

text \<open>
  The embedding follows \<^verbatim>\<open>src/drv_oculus_rift_s/rift-s.c\<close> and the declarations of
  \<^verbatim>\<open>rift-s-protocol.h\<close>. Conventions:
  \<^item> the C types \<^verbatim>\<open>float\<close> and \<^verbatim>\<open>double\<close> of the inertial pipeline are type parameters
    \<open>'r\<close> and \<open>'d\<close>, and their arithmetic is a parameter too (the record \<open>float_ops\<close>):
    nothing is assumed of it, so what is proved for every \<open>ops\<close> holds for the rounding
    arithmetic of the target, with its infinities and NaN;
  \<^item> \<^verbatim>\<open>uint8_t\<close>, \<^verbatim>\<open>int16_t\<close>, \<^verbatim>\<open>uint32_t\<close> are words of that width; \<open>sint\<close> reads an
    \<^verbatim>\<open>int16_t\<close>, \<open>unat\<close> a \<^verbatim>\<open>uint32_t\<close>, and word subtraction wraps as the C one does;
  \<^item> a C array of three elements is an \<open>arr3\<close>; a byte or float buffer behind a pointer
    is a function from the index;
  \<^item> a pointer to a \<^verbatim>\<open>hid_device\<close> or to a \<^verbatim>\<open>rift_s_hmd_t\<close> is a natural number, a
    pointer that may be \<^verbatim>\<open>NULL\<close> an \<open>option\<close>;
  \<^item> the HID transport, the fusion filter, the report parsers of
    \<^verbatim>\<open>rift-s-protocol.c\<close> and the logger are outside the two source files: their results
    are parameters (the record \<open>extern\<close>), and every call that acts on the outside world
    is written to a trace of \<open>event\<close>s in the order the code makes it.
\<close>

datatype 'a arr3 = Arr3 'a 'a 'a

fun nth3 :: "'a arr3 \<Rightarrow> nat \<Rightarrow> 'a" where
  "nth3 (Arr3 a b c) i = (if i = 0 then a else if i = 1 then b else c)"

fun upd3 :: "'a arr3 \<Rightarrow> nat \<Rightarrow> 'a \<Rightarrow> 'a arr3" where
  "upd3 (Arr3 a b c) i v =
     (if i = 0 then Arr3 v b c else if i = 1 then Arr3 a v c else Arr3 a b v)"

fun list3 :: "'a arr3 \<Rightarrow> 'a list" where
  "list3 (Arr3 a b c) = [a, b, c]"

text \<open>\<^verbatim>\<open>vec3f\<close> is a union of \<^verbatim>\<open>{x, y, z}\<close> and \<^verbatim>\<open>arr[3]\<close>; \<^verbatim>\<open>quatf\<close> has four floats.\<close>

type_synonym 'r vec3f = "'r arr3"
type_synonym 'r mat3x3 = "'r arr3 arr3"
type_synonym quatf = "real \<times> real \<times> real \<times> real"

text \<open>The arithmetic that rift-s.c uses on \<^verbatim>\<open>float\<close> (\<open>'r\<close>) and \<^verbatim>\<open>double\<close> (\<open>'d\<close>)
  values: the four \<^verbatim>\<open>float\<close> operations, the conversion of an integer to \<^verbatim>\<open>float\<close>, a
  \<^verbatim>\<open>float\<close> literal, the \<^verbatim>\<open>double\<close> division, the conversion of an integer to \<^verbatim>\<open>double\<close>,
  a \<^verbatim>\<open>double\<close> literal, and the conversions between the two types.\<close>

record ('r, 'd) float_ops =
  fadd :: "'r \<Rightarrow> 'r \<Rightarrow> 'r"
  fsub :: "'r \<Rightarrow> 'r \<Rightarrow> 'r"
  fmul :: "'r \<Rightarrow> 'r \<Rightarrow> 'r"
  fdiv :: "'r \<Rightarrow> 'r \<Rightarrow> 'r"
  f_of_int :: "int \<Rightarrow> 'r"
  f_lit :: "real \<Rightarrow> 'r"
  ddiv :: "'d \<Rightarrow> 'd \<Rightarrow> 'd"
  d_of_int :: "int \<Rightarrow> 'd"
  d_lit :: "real \<Rightarrow> 'd"
  f2d :: "'r \<Rightarrow> 'd"
  d2f :: "'d \<Rightarrow> 'r"

text \<open>\<^verbatim>\<open>rift_s_hmd_imu_sample_t\<close> and \<^verbatim>\<open>rift_s_hmd_report_t\<close> (rift-s-protocol.h). The report's
  own \<^verbatim>\<open>id\<close> and \<^verbatim>\<open>marker\<close> are named \<open>report_id\<close> and \<open>report_marker\<close>.\<close>

record rift_s_hmd_imu_sample_t =
  marker :: "8 word"
  accel :: "16 word arr3"
  gyro :: "16 word arr3"
  temperature :: "16 word"

record rift_s_hmd_report_t =
  report_id :: "8 word"
  unknown_const1 :: "16 word"
  timestamp :: "32 word"
  samples :: "rift_s_hmd_imu_sample_t arr3"
  report_marker :: "8 word"
  unknown2 :: "8 word"
  frame_timestamp :: "32 word"
  unknown_zero1 :: "16 word"
  frame_id :: "16 word"
  unknown_zero2 :: "16 word"

record rift_s_device_info_t =
  info_cmd :: "8 word"
  v_resolution :: "16 word"
  h_resolution :: "16 word"
  info_unknown1 :: "16 word"
  refresh_rate :: "8 word"

record 'r rift_s_imu_config_t =
  cmd :: "8 word"
  imu_hz :: "32 word"
  gyro_scale :: 'r
  accel_scale :: 'r
  temperature_scale :: 'r
  temperature_offset :: 'r

text \<open>\<^verbatim>\<open>rift_s_imu_calibration\<close> is declared in \<^verbatim>\<open>rift-s-firmware.h\<close>, which is not among
  the sources; the record has the four members that rift-s.c reads
  (\<^verbatim>\<open>accel.offset_at_0C\<close>, \<^verbatim>\<open>accel.rectification\<close>, \<^verbatim>\<open>gyro.offset\<close>,
  \<^verbatim>\<open>gyro.rectification\<close>), the nested structs flattened.\<close>

record 'r rift_s_imu_calibration =
  accel_offset_at_0C :: "'r vec3f"
  accel_rectification :: "'r mat3x3"
  gyro_offset :: "'r vec3f"
  gyro_rectification :: "'r mat3x3"

text \<open>\<^verbatim>\<open>rift_s_device_priv\<close> is declared in \<^verbatim>\<open>rift-s.h\<close>, not among the sources; rift-s.c
  uses its members \<^verbatim>\<open>id\<close>, \<^verbatim>\<open>hmd\<close> and \<^verbatim>\<open>opened\<close> (and \<^verbatim>\<open>base\<close>, the framework's
  callback table and display properties, which nothing modelled here reads).\<close>

record rift_s_device_priv =
  dev_id :: int
  dev_hmd :: "nat option"
  opened :: bool

text \<open>\<^verbatim>\<open>struct rift_s_hmd_s\<close>. The fusion state belongs to the external filter, so its type
  is a parameter, as is the type \<open>'r\<close> of the \<^verbatim>\<open>float\<close> members (\<^verbatim>\<open>last_keep_alive\<close> is a
  \<^verbatim>\<open>double\<close> that only the keepalive test reads, kept as a real). The \<^verbatim>\<open>ctx\<close> pointer is left out: there is one context, and the errors
  set on it appear in the trace. The cached \<^verbatim>\<open>temperature\<close> is named \<open>hmd_temperature\<close>.\<close>

record ('f, 'r) rift_s_hmd_t =
  use_count :: int
  handles :: "nat option arr3"
  last_imu_timestamp :: "32 word"
  last_keep_alive :: real
  sensor_fusion :: 'f
  raw_mag :: "'r vec3f"
  raw_accel :: "'r vec3f"
  raw_gyro :: "'r vec3f"
  hmd_temperature :: 'r
  display_on :: bool
  hmd_dev :: rift_s_device_priv
  device_info :: rift_s_device_info_t
  imu_config :: "'r rift_s_imu_config_t"
  imu_calibration :: "'r rift_s_imu_calibration"

definition OHMD_GRAVITY_EARTH :: real where
  "OHMD_GRAVITY_EARTH = 980665 / 100000"

section \<open>Inertial sample pipeline\<close>

text \<open>\<^verbatim>\<open>vec3f_rotate_3x3\<close>: the input is copied, then each component is overwritten with
  \<^verbatim>\<open>rot[i][0] * in.arr[0] + rot[i][1] * in.arr[1] + rot[i][2] * in.arr[2]\<close>, three \<^verbatim>\<open>float\<close>
  products added from the left.\<close>

definition vec3f_rotate_3x3 :: "('r, 'd) float_ops \<Rightarrow> 'r vec3f \<Rightarrow> 'r mat3x3 \<Rightarrow> 'r vec3f" where
  "vec3f_rotate_3x3 ops vec rot =
     (let inv = vec in
      fold (\<lambda>i v. upd3 v i
              (fadd ops
                 (fadd ops (fmul ops (nth3 (nth3 rot i) 0) (nth3 inv 0))
                           (fmul ops (nth3 (nth3 rot i) 1) (nth3 inv 1)))
                 (fmul ops (nth3 (nth3 rot i) 2) (nth3 inv 2))))
        [0, 1, 2] vec)"

text \<open>Lines 184-190 of \<^verbatim>\<open>handle_hmd_report\<close>: each raw \<^verbatim>\<open>int16_t\<close> reading is converted to
  \<^verbatim>\<open>float\<close> and multiplied by the scale constant computed before the loop.\<close>

definition scaled_gyro ::
  "('r, 'd) float_ops \<Rightarrow> 'r \<Rightarrow> rift_s_hmd_imu_sample_t \<Rightarrow> 'r vec3f" where
  "scaled_gyro ops gyro_scale_c s =
     Arr3 (fmul ops gyro_scale_c (f_of_int ops (sint (nth3 (gyro s) 0))))
          (fmul ops gyro_scale_c (f_of_int ops (sint (nth3 (gyro s) 1))))
          (fmul ops gyro_scale_c (f_of_int ops (sint (nth3 (gyro s) 2))))"

definition scaled_accel ::
  "('r, 'd) float_ops \<Rightarrow> 'r \<Rightarrow> rift_s_hmd_imu_sample_t \<Rightarrow> 'r vec3f" where
  "scaled_accel ops accel_scale_c s =
     Arr3 (fmul ops accel_scale_c (f_of_int ops (sint (nth3 (accel s) 0))))
          (fmul ops accel_scale_c (f_of_int ops (sint (nth3 (accel s) 1))))
          (fmul ops accel_scale_c (f_of_int ops (sint (nth3 (accel s) 2))))"

text \<open>Lines 192-196: the inner loop over \<open>j\<close> subtracts one offset component per round.\<close>

definition sub_offset :: "('r, 'd) float_ops \<Rightarrow> 'r vec3f \<Rightarrow> 'r vec3f \<Rightarrow> 'r vec3f" where
  "sub_offset ops v off = fold (\<lambda>j w. upd3 w j (fsub ops (nth3 w j) (nth3 off j))) [0, 1, 2] v"

text \<open>The body of the loop over the three samples, for a sample whose marker is valid
  (lines 182-208). \<open>ofusion_update\<close> is the fusion filter's entry point. In the
  temperature line the \<^verbatim>\<open>int16_t\<close> reading and the \<^verbatim>\<open>int\<close> 25 are converted to
  \<^verbatim>\<open>float\<close>.\<close>

definition process_sample ::
  "('r, 'd) float_ops \<Rightarrow> ('f \<Rightarrow> 'r \<Rightarrow> 'r vec3f \<Rightarrow> 'r vec3f \<Rightarrow> 'r vec3f \<Rightarrow> 'f) \<Rightarrow>
   'r \<Rightarrow> 'r \<Rightarrow> 'r \<Rightarrow> 'r \<Rightarrow>
   ('f, 'r) rift_s_hmd_t \<Rightarrow> 'r \<Rightarrow> rift_s_hmd_imu_sample_t \<Rightarrow> ('f, 'r) rift_s_hmd_t" where
  "process_sample ops ofusion_update gyro_scale_c accel_scale_c temperature_scale_c
       temperature_offset_c priv dt s =
     (let gyro0 = scaled_gyro ops gyro_scale_c s;
          accel0 = scaled_accel ops accel_scale_c s;
          accel1 = sub_offset ops accel0 (accel_offset_at_0C (imu_calibration priv));
          gyro1 = sub_offset ops gyro0 (gyro_offset (imu_calibration priv));
          accel2 = vec3f_rotate_3x3 ops accel1 (accel_rectification (imu_calibration priv));
          gyro2 = vec3f_rotate_3x3 ops gyro1 (gyro_rectification (imu_calibration priv));
          priv1 = priv\<lparr>raw_accel := accel2, raw_gyro := gyro2\<rparr>;
          priv2 = priv1\<lparr>hmd_temperature :=
                    fadd ops
                      (fmul ops temperature_scale_c
                         (fsub ops (f_of_int ops (sint (temperature s))) temperature_offset_c))
                      (f_of_int ops 25)\<rparr>
      in priv2\<lparr>sensor_fusion :=
                 ofusion_update (sensor_fusion priv2) dt (raw_gyro priv2) (raw_accel priv2) (raw_mag priv2)\<rparr>)"

text \<open>The loop \<^verbatim>\<open>for (i = 0; i < 3; i++)\<close> over the samples still to visit: it breaks at
  the first sample whose marker has bit \<^verbatim>\<open>0x80\<close>, and after each processed sample
  \<^verbatim>\<open>dt\<close> becomes \<^verbatim>\<open>TICK_LEN\<close>.\<close>

fun sample_loop ::
  "('r, 'd) float_ops \<Rightarrow> ('f \<Rightarrow> 'r \<Rightarrow> 'r vec3f \<Rightarrow> 'r vec3f \<Rightarrow> 'r vec3f \<Rightarrow> 'f) \<Rightarrow>
   'r \<Rightarrow> 'r \<Rightarrow> 'r \<Rightarrow> 'r \<Rightarrow> 'r \<Rightarrow>
   ('f, 'r) rift_s_hmd_t \<Rightarrow> 'r \<Rightarrow> rift_s_hmd_imu_sample_t list \<Rightarrow> ('f, 'r) rift_s_hmd_t" where
  "sample_loop ops upd TICK_LEN gs as ts tof priv dt [] = priv"
| "sample_loop ops upd TICK_LEN gs as ts tof priv dt (s # rest) =
     (if marker s AND 0x80 \<noteq> 0 then priv
      else sample_loop ops upd TICK_LEN gs as ts tof
             (process_sample ops upd gs as ts tof priv dt s) TICK_LEN rest)"

text \<open>\<^verbatim>\<open>handle_hmd_report\<close>. \<open>parse\<close> stands for \<^verbatim>\<open>rift_s_parse_hmd_report\<close>
  (rift-s-protocol.c, not among the sources): \<open>None\<close> when it returns false.
  The constants before the loop, as the C types make them:
  \<^verbatim>\<open>1.0 / imu_hz\<close> is a \<^verbatim>\<open>double\<close> division of the literal by the converted \<^verbatim>\<open>uint32_t\<close>,
  stored as \<^verbatim>\<open>float\<close>; the difference of the two \<^verbatim>\<open>uint32_t\<close> timestamps wraps, is
  converted to \<^verbatim>\<open>float\<close> and divided by the \<^verbatim>\<open>float\<close> literal \<^verbatim>\<open>1000000.0f\<close>;
  \<^verbatim>\<open>gyro_scale / 32768.0\<close>, \<^verbatim>\<open>OHMD_GRAVITY_EARTH / accel_scale\<close> and
  \<^verbatim>\<open>1.0 / temperature_scale\<close> are \<^verbatim>\<open>double\<close> divisions of the promoted \<^verbatim>\<open>float\<close> member,
  stored as \<^verbatim>\<open>float\<close>.\<close>

definition handle_hmd_report ::
  "('r, 'd) float_ops \<Rightarrow> ('f \<Rightarrow> 'r \<Rightarrow> 'r vec3f \<Rightarrow> 'r vec3f \<Rightarrow> 'r vec3f \<Rightarrow> 'f) \<Rightarrow>
   ((nat \<Rightarrow> 8 word) \<Rightarrow> int \<Rightarrow> rift_s_hmd_report_t option) \<Rightarrow>
   ('f, 'r) rift_s_hmd_t \<Rightarrow> (nat \<Rightarrow> 8 word) \<Rightarrow> int \<Rightarrow> ('f, 'r) rift_s_hmd_t" where
  "handle_hmd_report ops ofusion_update parse priv buf sz =
     (case parse buf sz of
        None \<Rightarrow> priv
      | Some report \<Rightarrow>
          (let TICK_LEN = d2f ops (ddiv ops (d_lit ops 1)
                             (d_of_int ops (uint (imu_hz (imu_config priv)))));
               dt = (if last_imu_timestamp priv \<noteq> 0
                     then fdiv ops (f_of_int ops (uint (timestamp report - last_imu_timestamp priv)))
                            (f_lit ops 1000000)
                     else TICK_LEN);
               gyro_scale_c = d2f ops (ddiv ops (f2d ops (gyro_scale (imu_config priv)))
                                        (d_lit ops 32768));
               accel_scale_c = d2f ops (ddiv ops (d_lit ops OHMD_GRAVITY_EARTH)
                                         (f2d ops (accel_scale (imu_config priv))));
               temperature_scale_c = d2f ops (ddiv ops (d_lit ops 1)
                                               (f2d ops (temperature_scale (imu_config priv))));
               temperature_offset_c = temperature_offset (imu_config priv);
               priv' = sample_loop ops ofusion_update TICK_LEN gyro_scale_c accel_scale_c
                         temperature_scale_c temperature_offset_c priv dt (list3 (samples report))
           in priv'\<lparr>last_imu_timestamp := timestamp report\<rparr>))"

text \<open>The fusion filter is observed through the calls it receives: with \<open>record_update\<close>
  in the place of \<^verbatim>\<open>ofusion_update\<close> the fusion state is the list of the calls made so
  far, each with its \<^verbatim>\<open>dt\<close>, gyro, accel and mag arguments.\<close>

type_synonym 'r fusion_call = "'r \<times> 'r vec3f \<times> 'r vec3f \<times> 'r vec3f"

definition record_update ::
  "'r fusion_call list \<Rightarrow> 'r \<Rightarrow> 'r vec3f \<Rightarrow> 'r vec3f \<Rightarrow> 'r vec3f \<Rightarrow> 'r fusion_call list" where
  "record_update f dt g a m = f @ [(dt, g, a, m)]"

text \<open>The scale constants of \<^verbatim>\<open>handle_hmd_report\<close> for a session, and what the loop body
  hands to the filter for a sample \<open>s\<close>: the scaled reading, minus the offset, rectified.\<close>

definition gyro_scale_const :: "('r, 'd) float_ops \<Rightarrow> ('f, 'r) rift_s_hmd_t \<Rightarrow> 'r" where
  "gyro_scale_const ops priv =
     d2f ops (ddiv ops (f2d ops (gyro_scale (imu_config priv))) (d_lit ops 32768))"

definition accel_scale_const :: "('r, 'd) float_ops \<Rightarrow> ('f, 'r) rift_s_hmd_t \<Rightarrow> 'r" where
  "accel_scale_const ops priv =
     d2f ops (ddiv ops (d_lit ops OHMD_GRAVITY_EARTH) (f2d ops (accel_scale (imu_config priv))))"

definition tick_len :: "('r, 'd) float_ops \<Rightarrow> ('f, 'r) rift_s_hmd_t \<Rightarrow> 'r" where
  "tick_len ops priv =
     d2f ops (ddiv ops (d_lit ops 1) (d_of_int ops (uint (imu_hz (imu_config priv)))))"

definition calibrated_gyro ::
  "('r, 'd) float_ops \<Rightarrow> ('f, 'r) rift_s_hmd_t \<Rightarrow> rift_s_hmd_imu_sample_t \<Rightarrow> 'r vec3f" where
  "calibrated_gyro ops priv s =
     vec3f_rotate_3x3 ops
       (sub_offset ops (scaled_gyro ops (gyro_scale_const ops priv) s)
          (gyro_offset (imu_calibration priv)))
       (gyro_rectification (imu_calibration priv))"

definition calibrated_accel ::
  "('r, 'd) float_ops \<Rightarrow> ('f, 'r) rift_s_hmd_t \<Rightarrow> rift_s_hmd_imu_sample_t \<Rightarrow> 'r vec3f" where
  "calibrated_accel ops priv s =
     vec3f_rotate_3x3 ops
       (sub_offset ops (scaled_accel ops (accel_scale_const ops priv) s)
          (accel_offset_at_0C (imu_calibration priv)))
       (accel_rectification (imu_calibration priv))"

definition valid_sample :: "rift_s_hmd_imu_sample_t \<Rightarrow> bool" where
  "valid_sample s = (marker s AND 0x80 = 0)"

section \<open>The outside world\<close>

text \<open>The calls the driver makes on the HID transport, the protocol layer and the logger,
  in the order it makes them. A handle argument that the code does not check against
  \<^verbatim>\<open>NULL\<close> is an \<open>option\<close>.\<close>

datatype event =
    Hid_open_path string "nat option"
  | Hid_set_nonblocking nat
  | Hid_close nat
  | Hid_read nat
  | Send_keepalive "nat option"
  | Set_screen_enable "nat option" bool
  | Hmd_enable nat bool
  | Read_device_info nat
  | Get_report1 nat
  | Read_imu_config nat
  | Read_firmware_block nat "8 word"
  | Parse_imu_calibration string
  | Unknown_report "8 word"
  | LOGE string
  | LOGW string
  | LOGD string
  | Printf string
  | Set_error string

record hid_device_info =
  info_path :: string
  interface_number :: int

text \<open>The results of the external functions during one call of the driver. A function
  that returns an \<^verbatim>\<open>int\<close> status and fills a buffer returns both.
  \<open>ohmd_alloc_ok\<close> tells whether \<^verbatim>\<open>ohmd_alloc\<close> succeeds, \<open>zero_fusion\<close> and
  \<open>zero_float\<close> are the fusion state and the \<^verbatim>\<open>float\<close> of all-zero bytes it returns. \<^verbatim>\<open>RIFT_S_FIRMWARE_BLOCK_IMU_CALIB\<close> is defined in
  \<^verbatim>\<open>rift-s-firmware.h\<close>, not among the sources, and is a parameter too.\<close>

record ('f, 'r) extern =
  ohmd_alloc_ok :: bool
  zero_fusion :: 'f
  zero_float :: 'r
  ofusion_init :: "'f \<Rightarrow> 'f"
  hid_enumerate :: "int \<Rightarrow> int \<Rightarrow> hid_device_info list"
  hid_open_path :: "string \<Rightarrow> nat option"
  hid_set_nonblocking :: "nat \<Rightarrow> int"
  rift_s_read_device_info :: "nat \<Rightarrow> int \<times> rift_s_device_info_t"
  rift_s_get_report1 :: "nat \<Rightarrow> int"
  rift_s_read_imu_config :: "nat \<Rightarrow> int \<times> 'r rift_s_imu_config_t"
  rift_s_read_firmware_block :: "nat \<Rightarrow> 8 word \<Rightarrow> int \<times> string"
  rift_s_parse_imu_calibration :: "string \<Rightarrow> int \<times> 'r rift_s_imu_calibration"
  rift_s_hmd_enable :: "nat \<Rightarrow> bool \<Rightarrow> int"
  RIFT_S_FIRMWARE_BLOCK_IMU_CALIB :: "8 word"

text \<open>The driver's memory: the \<^verbatim>\<open>rift_s_hmd_t\<close> objects by address (\<open>None\<close> once freed),
  the next address \<^verbatim>\<open>ohmd_alloc\<close> hands out, the global list \<^verbatim>\<open>rift_hmds\<close> (head first),
  and the trace.\<close>

record ('f, 'r) world =
  heap :: "nat \<Rightarrow> ('f, 'r) rift_s_hmd_t option"
  next_ptr :: nat
  rift_hmds :: "(string \<times> nat) list"
  trace :: "event list"

definition FEATURE_BUFFER_SIZE :: nat where
  "FEATURE_BUFFER_SIZE = 256"

definition KEEPALIVE_INTERVAL_MS :: real where
  "KEEPALIVE_INTERVAL_MS = 1000"

definition OCULUS_VR_INC_ID :: int where
  "OCULUS_VR_INC_ID = 0x2833"

definition RIFT_S_PID :: int where
  "RIFT_S_PID = 0x0051"

text \<open>\<^verbatim>\<open>interfaces[3]\<close> of \<^verbatim>\<open>open_hmd\<close>: \<^verbatim>\<open>RIFT_S_INTF_HMD\<close>, \<^verbatim>\<open>RIFT_S_INTF_STATUS\<close>,
  \<^verbatim>\<open>RIFT_S_INTF_CONTROLLERS\<close>.\<close>

definition interfaces :: "int arr3" where
  "interfaces = Arr3 6 7 8"

section \<open>Polling\<close>

text \<open>One \<^verbatim>\<open>hid_read\<close> either fails (a negative size) or delivers the bytes of one report,
  at most \<^verbatim>\<open>FEATURE_BUFFER_SIZE\<close> of them, into the front of \<^verbatim>\<open>buf\<close>; no bytes is the
  size 0.\<close>

datatype hid_read_result = Read_failed | Read_bytes "8 word list"

fun read_size :: "hid_read_result \<Rightarrow> int" where
  "read_size Read_failed = - 1"
| "read_size (Read_bytes bs) = int (length (take FEATURE_BUFFER_SIZE bs))"

fun read_into :: "(nat \<Rightarrow> 8 word) \<Rightarrow> hid_read_result \<Rightarrow> (nat \<Rightarrow> 8 word)" where
  "read_into buf Read_failed = buf"
| "read_into buf (Read_bytes bs) =
     (\<lambda>i. if i < length (take FEATURE_BUFFER_SIZE bs) then bs ! i else buf i)"

text \<open>\<^verbatim>\<open>handle_controller_report\<close>; \<open>parsec\<close> stands for
  \<^verbatim>\<open>rift_s_parse_controller_report\<close> (rift-s-protocol.c).\<close>

definition handle_controller_report ::
  "((nat \<Rightarrow> 8 word) \<Rightarrow> int \<Rightarrow> bool) \<Rightarrow> (nat \<Rightarrow> 8 word) \<Rightarrow> int \<Rightarrow> event list" where
  "handle_controller_report parsec buf sz =
     (if \<not> parsec buf sz then [Printf ''Invalid Controller Report''] else [])"

text \<open>Lines 251-265 of \<^verbatim>\<open>update_hmd\<close>: the dispatch on the leading byte of a report that
  was read.\<close>

definition dispatch_report ::
  "('r, 'd) float_ops \<Rightarrow> ('f \<Rightarrow> 'r \<Rightarrow> 'r vec3f \<Rightarrow> 'r vec3f \<Rightarrow> 'r vec3f \<Rightarrow> 'f) \<Rightarrow>
   ((nat \<Rightarrow> 8 word) \<Rightarrow> int \<Rightarrow> rift_s_hmd_report_t option) \<Rightarrow>
   ((nat \<Rightarrow> 8 word) \<Rightarrow> int \<Rightarrow> bool) \<Rightarrow>
   ('f, 'r) rift_s_hmd_t \<Rightarrow> (nat \<Rightarrow> 8 word) \<Rightarrow> int \<Rightarrow> ('f, 'r) rift_s_hmd_t \<times> event list" where
  "dispatch_report ops ofusion_update parse parsec priv buf sz =
     (if buf 0 = 0x65 then (handle_hmd_report ops ofusion_update parse priv buf sz, [])
      else if buf 0 = 0x67 then (priv, handle_controller_report parsec buf sz)
      else if buf 0 = 0x66 then
        (let prox_sensor = (if buf 1 = 0 then False else True) in
         if prox_sensor \<noteq> display_on priv
         then (priv\<lparr>display_on := prox_sensor\<rparr>,
               [Set_screen_enable (nth3 (handles priv) 0) prox_sensor])
         else (priv, []))
      else (priv, [Unknown_report (buf 0)]))"

text \<open>The \<^verbatim>\<open>while(true)\<close> loop on one handle. The results of the successive
  \<^verbatim>\<open>hid_read\<close> calls come as a list; the loop may go on for as long as the device
  delivers reports, and a list that ends before a read of size 0 or below gives \<open>None\<close>.
  The result has the session, the buffer, the read results not yet used and the events.\<close>

fun read_loop ::
  "('r, 'd) float_ops \<Rightarrow> ('f \<Rightarrow> 'r \<Rightarrow> 'r vec3f \<Rightarrow> 'r vec3f \<Rightarrow> 'r vec3f \<Rightarrow> 'f) \<Rightarrow>
   ((nat \<Rightarrow> 8 word) \<Rightarrow> int \<Rightarrow> rift_s_hmd_report_t option) \<Rightarrow>
   ((nat \<Rightarrow> 8 word) \<Rightarrow> int \<Rightarrow> bool) \<Rightarrow> nat \<Rightarrow>
   ('f, 'r) rift_s_hmd_t \<Rightarrow> (nat \<Rightarrow> 8 word) \<Rightarrow> hid_read_result list \<Rightarrow>
   (('f, 'r) rift_s_hmd_t \<times> (nat \<Rightarrow> 8 word) \<times> hid_read_result list \<times> event list) option" where
  "read_loop ops upd parse parsec h priv buf [] = None"
| "read_loop ops upd parse parsec h priv buf (r # rs) =
     (let sz = read_size r; buf' = read_into buf r in
      if sz < 0 then Some (priv, buf', rs, [Hid_read h, LOGE ''error reading from HMD device''])
      else if sz = 0 then Some (priv, buf', rs, [Hid_read h])
      else (case dispatch_report ops upd parse parsec priv buf' sz of
              (priv', ev) \<Rightarrow>
                (case read_loop ops upd parse parsec h priv' buf' rs of
                   None \<Rightarrow> None
                 | Some (p, b, rest, ev') \<Rightarrow> Some (p, b, rest, Hid_read h # ev @ ev'))))"

text \<open>The loop \<^verbatim>\<open>for (i = 0; i < 3; i++)\<close> over the handles still to poll.\<close>

fun poll_handles ::
  "('r, 'd) float_ops \<Rightarrow> ('f \<Rightarrow> 'r \<Rightarrow> 'r vec3f \<Rightarrow> 'r vec3f \<Rightarrow> 'r vec3f \<Rightarrow> 'f) \<Rightarrow>
   ((nat \<Rightarrow> 8 word) \<Rightarrow> int \<Rightarrow> rift_s_hmd_report_t option) \<Rightarrow>
   ((nat \<Rightarrow> 8 word) \<Rightarrow> int \<Rightarrow> bool) \<Rightarrow> nat list \<Rightarrow>
   ('f, 'r) rift_s_hmd_t \<Rightarrow> (nat \<Rightarrow> 8 word) \<Rightarrow> hid_read_result list \<Rightarrow>
   (('f, 'r) rift_s_hmd_t \<times> (nat \<Rightarrow> 8 word) \<times> hid_read_result list \<times> event list) option" where
  "poll_handles ops upd parse parsec [] priv buf rs = Some (priv, buf, rs, [])"
| "poll_handles ops upd parse parsec (i # is) priv buf rs =
     (case nth3 (handles priv) i of
        None \<Rightarrow> poll_handles ops upd parse parsec is priv buf rs
      | Some h \<Rightarrow>
          (case read_loop ops upd parse parsec h priv buf rs of
             None \<Rightarrow> None
           | Some (p, b, rest, ev) \<Rightarrow>
               (case poll_handles ops upd parse parsec is p b rest of
                  None \<Rightarrow> None
                | Some (p', b', rest', ev') \<Rightarrow> Some (p', b', rest', ev @ ev'))))"

text \<open>\<^verbatim>\<open>update_hmd\<close>. \<open>t\<close> is the value of \<^verbatim>\<open>ohmd_get_tick()\<close>, \<open>buf\<close> the contents of
  the local buffer on entry, \<open>rs\<close> the results of the reads.\<close>

definition update_hmd ::
  "('r, 'd) float_ops \<Rightarrow> ('f \<Rightarrow> 'r \<Rightarrow> 'r vec3f \<Rightarrow> 'r vec3f \<Rightarrow> 'r vec3f \<Rightarrow> 'f) \<Rightarrow>
   ((nat \<Rightarrow> 8 word) \<Rightarrow> int \<Rightarrow> rift_s_hmd_report_t option) \<Rightarrow>
   ((nat \<Rightarrow> 8 word) \<Rightarrow> int \<Rightarrow> bool) \<Rightarrow> real \<Rightarrow> (nat \<Rightarrow> 8 word) \<Rightarrow> hid_read_result list \<Rightarrow>
   ('f, 'r) rift_s_hmd_t \<Rightarrow> (('f, 'r) rift_s_hmd_t \<times> hid_read_result list \<times> event list) option" where
  "update_hmd ops upd parse parsec t buf rs priv =
     (case (if t - last_keep_alive priv \<ge> KEEPALIVE_INTERVAL_MS / 1000
            then (priv\<lparr>last_keep_alive := t\<rparr>, [Send_keepalive (nth3 (handles priv) 0)])
            else (priv, [])) of
        (priv1, ev0) \<Rightarrow>
          (case poll_handles ops upd parse parsec [0, 1, 2] priv1 buf rs of
             None \<Rightarrow> None
           | Some (p, b, rest, ev) \<Rightarrow> Some (p, rest, ev0 @ ev)))"

section \<open>Float queries\<close>

text \<open>\<^verbatim>\<open>ohmd_float_value\<close> is declared in \<^verbatim>\<open>openhmd.h\<close>, not among the sources:
  the four enumerators that \<^verbatim>\<open>getf_hmd\<close> names, and every other value of the enum.\<close>

datatype ohmd_float_value =
    OHMD_DISTORTION_K
  | OHMD_ROTATION_QUAT
  | OHMD_POSITION_VECTOR
  | OHMD_CONTROLS_STATE
  | OHMD_OTHER_FLOAT_VALUE int

text \<open>\<^verbatim>\<open>getf_hmd\<close>: the status, the caller's buffer afterwards, and the error set.
  \<open>orient\<close> reads the orientation out of the fusion state.\<close>

definition getf_hmd ::
  "('f \<Rightarrow> quatf) \<Rightarrow> ('f, 'r) rift_s_hmd_t \<Rightarrow> ohmd_float_value \<Rightarrow> (nat \<Rightarrow> real) \<Rightarrow>
   int \<times> (nat \<Rightarrow> real) \<times> event list" where
  "getf_hmd orient hmd type out =
     (case type of
        OHMD_DISTORTION_K \<Rightarrow> (0, ((\<lambda>b k. if k < 6 then 0 else b k) ^^ 6) out, [])
      | OHMD_ROTATION_QUAT \<Rightarrow>
          (case orient (sensor_fusion hmd) of
             (qx, qy, qz, qw) \<Rightarrow> (0, out(0 := qx, 1 := qy, 2 := qz, 3 := qw), []))
      | OHMD_POSITION_VECTOR \<Rightarrow> (0, out(2 := 0, 1 := 0, 0 := 0), [])
      | OHMD_CONTROLS_STATE \<Rightarrow> (0, out, [])
      | OHMD_OTHER_FLOAT_VALUE n \<Rightarrow> (- 1, out, [Set_error ''invalid type given to getf'']))"

text \<open>\<^verbatim>\<open>getf\<close>, on the \<^verbatim>\<open>rift_s_device_priv\<close> its argument points to. \<open>None\<close> is the
  undefined behaviour of following a \<^verbatim>\<open>hmd\<close> pointer that is \<^verbatim>\<open>NULL\<close> or freed.\<close>

definition getf ::
  "('f \<Rightarrow> quatf) \<Rightarrow> (nat \<Rightarrow> ('f, 'r) rift_s_hmd_t option) \<Rightarrow> rift_s_device_priv \<Rightarrow> ohmd_float_value \<Rightarrow>
   (nat \<Rightarrow> real) \<Rightarrow> (int \<times> (nat \<Rightarrow> real) \<times> event list) option" where
  "getf orient hp dev_priv type out =
     (if dev_id dev_priv = 0 then
        (case dev_hmd dev_priv of
           None \<Rightarrow> None
         | Some p \<Rightarrow>
             (case hp p of
                None \<Rightarrow> None
              | Some hmd \<Rightarrow> Some (getf_hmd orient hmd type out)))
      else Some (- 1, out, []))"

section \<open>Session management\<close>

text \<open>\<^verbatim>\<open>find_hmd\<close>, \<^verbatim>\<open>push_hmd\<close>: the walk over the global list and the push at its head.
  Paths are compared as strings (\<^verbatim>\<open>strcmp\<close>); the copy into the fixed
  \<^verbatim>\<open>char path[OHMD_STR_SIZE]\<close> is taken to fit.\<close>

fun find_hmd :: "(string \<times> nat) list \<Rightarrow> string \<Rightarrow> nat option" where
  "find_hmd [] hid_path = None"
| "find_hmd (current # rest) hid_path =
     (if fst current = hid_path then Some (snd current) else find_hmd rest hid_path)"

definition push_hmd :: "('f, 'r) world \<Rightarrow> nat \<Rightarrow> string \<Rightarrow> ('f, 'r) world" where
  "push_hmd w hmd hid_path = w\<lparr>rift_hmds := (hid_path, hmd) # rift_hmds w\<rparr>"

text \<open>\<^verbatim>\<open>close_hmd\<close>, without the final \<^verbatim>\<open>free\<close>: the calls it makes for a session.\<close>

definition close_hmd_events :: "('f, 'r) extern \<Rightarrow> ('f, 'r) rift_s_hmd_t \<Rightarrow> event list" where
  "close_hmd_events ext hmd =
     (case nth3 (handles hmd) 0 of
        None \<Rightarrow> []
      | Some h0 \<Rightarrow>
          Hmd_enable h0 True #
          (if rift_s_hmd_enable ext h0 True < 0 then [LOGW ''Failed to disable Rift S''] else []))
     @ concat (map (\<lambda>i. case nth3 (handles hmd) i of None \<Rightarrow> [] | Some h \<Rightarrow> [Hid_close h])
                 [0, 1, 2])"

text \<open>\<^verbatim>\<open>close_hmd\<close> on an address; \<open>None\<close> is the use of a freed session.\<close>

definition close_hmd :: "('f, 'r) extern \<Rightarrow> ('f, 'r) world \<Rightarrow> nat \<Rightarrow> ('f, 'r) world option" where
  "close_hmd ext w hmd =
     (case heap w hmd of
        None \<Rightarrow> None
      | Some h \<Rightarrow> Some (w\<lparr>trace := trace w @ close_hmd_events ext h,
                          heap := (heap w)(hmd := None)\<rparr>))"

text \<open>The walk of \<^verbatim>\<open>release_hmd\<close> over the list: the list without the first entry
  for \<open>hmd\<close>, \<open>None\<close> when there is no such entry.\<close>

fun unlink_hmd :: "(string \<times> nat) list \<Rightarrow> nat \<Rightarrow> (string \<times> nat) list option" where
  "unlink_hmd [] hmd = None"
| "unlink_hmd (current # rest) hmd =
     (if snd current = hmd then Some rest
      else (case unlink_hmd rest hmd of None \<Rightarrow> None | Some l \<Rightarrow> Some (current # l)))"

definition release_hmd :: "('f, 'r) extern \<Rightarrow> ('f, 'r) world \<Rightarrow> nat \<Rightarrow> ('f, 'r) world option" where
  "release_hmd ext w hmd =
     (case heap w hmd of
        None \<Rightarrow> None
      | Some h \<Rightarrow>
          if use_count h > 1
          then Some (w\<lparr>heap := (heap w)(hmd \<mapsto> h\<lparr>use_count := use_count h - 1\<rparr>)\<rparr>)
          else (case unlink_hmd (rift_hmds w) hmd of
                  None \<Rightarrow> Some (w\<lparr>trace := trace w @
                                   [LOGE ''Failed to find HMD in the active device list'']\<rparr>)
                | Some l \<Rightarrow>
                    (case close_hmd ext w hmd of
                       None \<Rightarrow> None
                     | Some w' \<Rightarrow> Some (w'\<lparr>rift_hmds := l\<rparr>))))"

text \<open>\<^verbatim>\<open>open_hid_dev\<close>: the walk over the enumeration, then the switch to non-blocking
  reads.\<close>

fun open_first :: "('f, 'r) extern \<Rightarrow> int \<Rightarrow> hid_device_info list \<Rightarrow> nat option \<times> event list" where
  "open_first ext iface_num [] = (None, [])"
| "open_first ext iface_num (cur_dev # rest) =
     (if interface_number cur_dev = iface_num then
        (case hid_open_path ext (info_path cur_dev) of
           Some handle \<Rightarrow> (Some handle, [Hid_open_path (info_path cur_dev) (Some handle)])
         | None \<Rightarrow>
             (case open_first ext iface_num rest of
                (handle, ev) \<Rightarrow>
                  (handle, Hid_open_path (info_path cur_dev) None # Set_error ''Could not open'' # ev)))
      else open_first ext iface_num rest)"

definition open_hid_dev :: "('f, 'r) extern \<Rightarrow> int \<Rightarrow> int \<Rightarrow> int \<Rightarrow> nat option \<times> event list" where
  "open_hid_dev ext vid pid iface_num =
     (let devs = hid_enumerate ext vid pid in
      if devs = [] then (None, [])
      else (case open_first ext iface_num devs of
              (None, ev) \<Rightarrow> (None, ev)
            | (Some handle, ev) \<Rightarrow>
                if hid_set_nonblocking ext handle = - 1
                then (None, ev @ [Hid_set_nonblocking handle,
                                  Set_error ''Failed to set non-blocking mode on USB device'',
                                  Hid_close handle])
                else (Some handle, ev @ [Hid_set_nonblocking handle])))"

text \<open>\<^verbatim>\<open>read_calibration\<close>: the status, the session and the calls made.\<close>

definition read_calibration ::
  "('f, 'r) extern \<Rightarrow> ('f, 'r) rift_s_hmd_t \<Rightarrow> nat \<Rightarrow> int \<times> ('f, 'r) rift_s_hmd_t \<times> event list" where
  "read_calibration ext hmd hid =
     (case rift_s_read_firmware_block ext hid (RIFT_S_FIRMWARE_BLOCK_IMU_CALIB ext) of
        (ret, json) \<Rightarrow>
          if ret < 0 then (ret, hmd, [Read_firmware_block hid (RIFT_S_FIRMWARE_BLOCK_IMU_CALIB ext)])
          else (case rift_s_parse_imu_calibration ext json of
                  (ret', cal) \<Rightarrow>
                    (ret', hmd\<lparr>imu_calibration := cal\<rparr>,
                     [Read_firmware_block hid (RIFT_S_FIRMWARE_BLOCK_IMU_CALIB ext),
                      Parse_imu_calibration json])))"

text \<open>The memory \<^verbatim>\<open>ohmd_alloc\<close> returns: every member zero, \<open>z\<close> for the fusion state
  and \<open>fz\<close> for a \<^verbatim>\<open>float\<close>.\<close>

definition zero_vec3f :: "'r \<Rightarrow> 'r vec3f" where
  "zero_vec3f fz = Arr3 fz fz fz"

definition zero_mat3x3 :: "'r \<Rightarrow> 'r mat3x3" where
  "zero_mat3x3 fz = Arr3 (zero_vec3f fz) (zero_vec3f fz) (zero_vec3f fz)"

definition zeroed_hmd :: "'f \<Rightarrow> 'r \<Rightarrow> ('f, 'r) rift_s_hmd_t" where
  "zeroed_hmd z fz =
     \<lparr>use_count = 0, handles = Arr3 None None None, last_imu_timestamp = 0,
      last_keep_alive = 0, sensor_fusion = z,
      raw_mag = zero_vec3f fz, raw_accel = zero_vec3f fz, raw_gyro = zero_vec3f fz,
      hmd_temperature = fz, display_on = False,
      hmd_dev = \<lparr>dev_id = 0, dev_hmd = None, opened = False\<rparr>,
      device_info = \<lparr>info_cmd = 0, v_resolution = 0, h_resolution = 0, info_unknown1 = 0,
                     refresh_rate = 0\<rparr>,
      imu_config = \<lparr>cmd = 0, imu_hz = 0, gyro_scale = fz, accel_scale = fz,
                    temperature_scale = fz, temperature_offset = fz\<rparr>,
      imu_calibration = \<lparr>accel_offset_at_0C = zero_vec3f fz,
                         accel_rectification = zero_mat3x3 fz,
                         gyro_offset = zero_vec3f fz, gyro_rectification = zero_mat3x3 fz\<rparr>\<rparr>"

text \<open>The loop of \<^verbatim>\<open>open_hmd\<close> that opens the three HID devices; the flag is false when
  it left for \<^verbatim>\<open>cleanup\<close>.\<close>

fun open_handles ::
  "('f, 'r) extern \<Rightarrow> nat list \<Rightarrow> ('f, 'r) rift_s_hmd_t \<Rightarrow> ('f, 'r) rift_s_hmd_t \<times> event list \<times> bool" where
  "open_handles ext [] priv = (priv, [], True)"
| "open_handles ext (i # is) priv =
     (case open_hid_dev ext OCULUS_VR_INC_ID RIFT_S_PID (nth3 interfaces i) of
        (h, ev) \<Rightarrow>
          (let priv' = priv\<lparr>handles := upd3 (handles priv) i h\<rparr> in
           if h = None then (priv', ev, False)
           else (case open_handles ext is priv' of
                   (priv'', ev', ok) \<Rightarrow> (priv'', ev @ ev', ok))))"

text \<open>The label \<^verbatim>\<open>cleanup\<close> of \<^verbatim>\<open>open_hmd\<close>: the session is closed and freed, the
  result is \<^verbatim>\<open>NULL\<close>. The session was never stored, so the heap is as before.\<close>

definition cleanup ::
  "('f, 'r) extern \<Rightarrow> ('f, 'r) world \<Rightarrow> ('f, 'r) rift_s_hmd_t \<Rightarrow> event list \<Rightarrow> ('f, 'r) world \<times> nat option" where
  "cleanup ext w priv ev = (w\<lparr>trace := trace w @ ev @ close_hmd_events ext priv\<rparr>, None)"

text \<open>\<^verbatim>\<open>open_hmd\<close>. The defaults it writes to \<^verbatim>\<open>hmd_dev->base.properties\<close> (lines 412-433)
  are left out with \<^verbatim>\<open>base\<close>. In the branch where \<^verbatim>\<open>handles[0]\<close> is \<^verbatim>\<open>NULL\<close> after the
  loop succeeded, which the loop excludes, the model goes to \<^verbatim>\<open>cleanup\<close>.\<close>

definition open_hmd :: "('f, 'r) extern \<Rightarrow> ('f, 'r) world \<Rightarrow> ('f, 'r) world \<times> nat option" where
  "open_hmd ext w =
     (if \<not> ohmd_alloc_ok ext then (w, None)
      else
        (let p = next_ptr w;
             w0 = w\<lparr>next_ptr := Suc p\<rparr>;
             priv = (zeroed_hmd (zero_fusion ext) (zero_float ext))\<lparr>use_count := 1, last_imu_timestamp := - 1\<rparr>
         in case open_handles ext [0, 1, 2] priv of
              (priv1, ev1, ok) \<Rightarrow>
                if \<not> ok then cleanup ext w0 priv1 ev1
                else (case nth3 (handles priv1) 0 of
                        None \<Rightarrow> cleanup ext w0 priv1 ev1
                      | Some hid \<Rightarrow>
          (case rift_s_read_device_info ext hid of
             (r1, di) \<Rightarrow>
               (let priv2 = priv1\<lparr>device_info := di\<rparr>; ev2 = ev1 @ [Read_device_info hid] in
                if r1 < 0
                then cleanup ext w0 priv2 (ev2 @ [LOGE ''Failed to read Rift S device info''])
                else
                  (let ev3 = ev2 @ [Get_report1 hid] in
                   if rift_s_get_report1 ext hid < 0
                   then cleanup ext w0 priv2 (ev3 @ [LOGE ''Failed to read Rift S Report 1''])
                   else
                     (case rift_s_read_imu_config ext hid of
                        (r3, cfg) \<Rightarrow>
                          (let priv3 = priv2\<lparr>imu_config := cfg\<rparr>;
                               ev4 = ev3 @ [Read_imu_config hid] in
                           if r3 < 0
                           then cleanup ext w0 priv3
                                  (ev4 @ [LOGE ''Failed to read IMU configuration block''])
                           else
                             (case read_calibration ext priv3 hid of
                                (r4, priv4, evc) \<Rightarrow>
                                  if r4 < 0 then cleanup ext w0 priv4 (ev4 @ evc)
                                  else
                                    (let priv5 = priv4\<lparr>hmd_dev :=
                                                   (hmd_dev priv4)\<lparr>dev_id := 0, dev_hmd := Some p\<rparr>\<rparr>;
                                         priv6 = priv5\<lparr>sensor_fusion :=
                                                   ofusion_init ext (sensor_fusion priv5)\<rparr>;
                                         ev5 = ev4 @ evc @ [Hmd_enable hid True]
                                     in if rift_s_hmd_enable ext hid True < 0
                                        then cleanup ext w0 priv6
                                               (ev5 @ [LOGE ''Failed to enable Rift S''])
                                        else (w0\<lparr>heap := (heap w0)(p \<mapsto> priv6),
                                                  trace := trace w0 @ ev5\<rparr>, Some p)))))))))))"

text \<open>\<^verbatim>\<open>ohmd_device_desc\<close> (openhmd.h), the two members \<^verbatim>\<open>open_device\<close> reads.\<close>

record ohmd_device_desc =
  desc_path :: string
  desc_id :: int

text \<open>\<^verbatim>\<open>open_device\<close>. The device it returns is \<^verbatim>\<open>&hmd->hmd_dev.base\<close>, given here by
  the address of the session. The outer \<open>None\<close> is the write through a freed session.\<close>

definition open_device ::
  "('f, 'r) extern \<Rightarrow> ('f, 'r) world \<Rightarrow> ohmd_device_desc \<Rightarrow> (('f, 'r) world \<times> nat option) option" where
  "open_device ext w desc =
     (case (case find_hmd (rift_hmds w) (desc_path desc) of
              None \<Rightarrow>
                (case open_hmd ext w of
                   (w1, None) \<Rightarrow> (w1, None)
                 | (w1, Some hmd) \<Rightarrow> (push_hmd w1 hmd (desc_path desc), Some hmd))
            | Some hmd \<Rightarrow> (w, Some hmd)) of
        (w2, None) \<Rightarrow> Some (w2, None)
      | (w2, Some hmd) \<Rightarrow>
          if desc_id desc = 0 then
            (case heap w2 hmd of
               None \<Rightarrow> None
             | Some h \<Rightarrow>
                 Some (w2\<lparr>heap := (heap w2)(hmd \<mapsto>
                            h\<lparr>hmd_dev := (hmd_dev h)\<lparr>dev_hmd := Some hmd, dev_id := desc_id desc,
                                                     opened := True\<rparr>\<rparr>)\<rparr>,
                       Some hmd))
          else Some (w2\<lparr>trace := trace w2 @
                          [LOGE ''Invalid device description passed to open_device()'']\<rparr>, None))"

text \<open>\<^verbatim>\<open>close_device\<close>, on the address of the session whose \<^verbatim>\<open>hmd_dev\<close> is the device.\<close>

definition close_device :: "('f, 'r) extern \<Rightarrow> ('f, 'r) world \<Rightarrow> nat \<Rightarrow> ('f, 'r) world option" where
  "close_device ext w device =
     (case heap w device of
        None \<Rightarrow> None
      | Some h \<Rightarrow>
          (let w1 = w\<lparr>trace := trace w @ [LOGD ''closing device''],
                      heap := (heap w)(device \<mapsto> h\<lparr>hmd_dev := (hmd_dev h)\<lparr>opened := False\<rparr>\<rparr>)\<rparr>
           in case dev_hmd (hmd_dev h) of
                None \<Rightarrow> None
              | Some hmd \<Rightarrow> release_hmd ext w1 hmd))"

section \<open>Concrete inputs\<close>

text \<open>Arithmetic without rounding, on the reals. It is one arithmetic among those the
  theorems stated for every \<open>ops\<close> cover, and the one in which the numeric
  evaluations below are done; none of them divides by zero.\<close>

definition exact_ops :: "(real, real) float_ops" where
  "exact_ops =
     \<lparr>fadd = (\<lambda>a b. a + b), fsub = (\<lambda>a b. a - b), fmul = (\<lambda>a b. a * b),
      fdiv = (\<lambda>a b. a / b), f_of_int = real_of_int, f_lit = (\<lambda>x. x),
      ddiv = (\<lambda>a b. a / b), d_of_int = real_of_int, d_lit = (\<lambda>x. x),
      f2d = (\<lambda>x. x), d2f = (\<lambda>x. x)\<rparr>"

text \<open>Arithmetic that computes nothing: each operation builds the term of its operands.
  The value of the code in it shows which operations the code applies, to what and in
  which order; the value in any other arithmetic is the interpretation of that term.\<close>

datatype fexpr =
    Lit real
  | Of_int int
  | Add fexpr fexpr
  | Sub fexpr fexpr
  | Mul fexpr fexpr
  | Div fexpr fexpr
  | D2f fexpr
  | DLit real
  | D_of_int int
  | DDiv fexpr fexpr
  | F2d fexpr

definition symbolic_ops :: "(fexpr, fexpr) float_ops" where
  "symbolic_ops =
     \<lparr>fadd = Add, fsub = Sub, fmul = Mul, fdiv = Div, f_of_int = Of_int, f_lit = Lit,
      ddiv = DDiv, d_of_int = D_of_int, d_lit = DLit, f2d = F2d, d2f = D2f\<rparr>"

text \<open>A headset whose three HID interfaces open and whose every read and command
  succeeds, with an IMU configuration of 1000 Hz, identity rectification and no offsets.
  The fusion state is the list of the update calls received.\<close>

definition example_config :: "real rift_s_imu_config_t" where
  "example_config =
     \<lparr>cmd = 9, imu_hz = 1000, gyro_scale = 2000, accel_scale = 2048,
      temperature_scale = 2, temperature_offset = 10\<rparr>"

definition identity_mat3x3 :: "real mat3x3" where
  "identity_mat3x3 = Arr3 (Arr3 1 0 0) (Arr3 0 1 0) (Arr3 0 0 1)"

definition example_calibration :: "real rift_s_imu_calibration" where
  "example_calibration =
     \<lparr>accel_offset_at_0C = (zero_vec3f 0), accel_rectification = identity_mat3x3,
      gyro_offset = (zero_vec3f 0), gyro_rectification = identity_mat3x3\<rparr>"

definition example_device_info :: rift_s_device_info_t where
  "example_device_info =
     \<lparr>info_cmd = 6, v_resolution = 1440, h_resolution = 2560, info_unknown1 = 0,
      refresh_rate = 80\<rparr>"

definition ok_extern :: "(real fusion_call list, real) extern" where
  "ok_extern =
     \<lparr>ohmd_alloc_ok = True,
      zero_fusion = [],
      zero_float = 0,
      ofusion_init = (\<lambda>f. []),
      hid_enumerate = (\<lambda>vid pid.
         if vid = 0x2833 \<and> pid = 0x51
         then [\<lparr>info_path = ''hidraw0'', interface_number = 6\<rparr>,
               \<lparr>info_path = ''hidraw1'', interface_number = 7\<rparr>,
               \<lparr>info_path = ''hidraw2'', interface_number = 8\<rparr>]
         else []),
      hid_open_path = (\<lambda>path.
         if path = ''hidraw0'' then Some 6
         else if path = ''hidraw1'' then Some 7
         else if path = ''hidraw2'' then Some 8 else None),
      hid_set_nonblocking = (\<lambda>h. 0),
      rift_s_read_device_info = (\<lambda>h. (0, example_device_info)),
      rift_s_get_report1 = (\<lambda>h. 0),
      rift_s_read_imu_config = (\<lambda>h. (0, example_config)),
      rift_s_read_firmware_block = (\<lambda>h b. (0, ''{}'')),
      rift_s_parse_imu_calibration = (\<lambda>json. (0, example_calibration)),
      rift_s_hmd_enable = (\<lambda>h e. 0),
      RIFT_S_FIRMWARE_BLOCK_IMU_CALIB = 0x0E\<rparr>"

definition empty_world :: "(real fusion_call list, real) world" where
  "empty_world = \<lparr>heap = (\<lambda>a. None), next_ptr = 0, rift_hmds = [], trace = []\<rparr>"

definition example_desc :: ohmd_device_desc where
  "example_desc = \<lparr>desc_path = ''hidraw0'', desc_id = 0\<rparr>"

text \<open>The session and the world that the first \<^verbatim>\<open>open_device\<close> leaves on this headset.\<close>

definition open_events :: "event list" where
  "open_events =
     [Hid_open_path ''hidraw0'' (Some 6), Hid_set_nonblocking 6,
      Hid_open_path ''hidraw1'' (Some 7), Hid_set_nonblocking 7,
      Hid_open_path ''hidraw2'' (Some 8), Hid_set_nonblocking 8,
      Read_device_info 6, Get_report1 6, Read_imu_config 6,
      Read_firmware_block 6 0x0E, Parse_imu_calibration ''{}'',
      Hmd_enable 6 True]"

definition opened_session :: "(real fusion_call list, real) rift_s_hmd_t" where
  "opened_session =
     \<lparr>use_count = 1, handles = Arr3 (Some 6) (Some 7) (Some 8), last_imu_timestamp = - 1,
      last_keep_alive = 0, sensor_fusion = [],
      raw_mag = (zero_vec3f 0), raw_accel = (zero_vec3f 0), raw_gyro = (zero_vec3f 0),
      hmd_temperature = 0, display_on = False,
      hmd_dev = \<lparr>dev_id = 0, dev_hmd = Some 0, opened = True\<rparr>,
      device_info = example_device_info,
      imu_config = example_config,
      imu_calibration = example_calibration\<rparr>"

definition opened_world :: "(real fusion_call list, real) world" where
  "opened_world =
     \<lparr>heap = (\<lambda>a. if a = 0 then Some opened_session else None), next_ptr = 1,
      rift_hmds = [(''hidraw0'', 0)], trace = open_events\<rparr>"

text \<open>A sample with the given marker, and a report with the given timestamp whose second
  sample has the given marker; the first and the third sample are valid.\<close>

definition example_sample :: "8 word \<Rightarrow> rift_s_hmd_imu_sample_t" where
  "example_sample m = \<lparr>marker = m, accel = Arr3 0 0 2048, gyro = Arr3 16384 0 0, temperature = 100\<rparr>"

definition example_report :: "32 word \<Rightarrow> 8 word \<Rightarrow> rift_s_hmd_report_t" where
  "example_report ts m =
     \<lparr>report_id = 0x65, unknown_const1 = 0, timestamp = ts,
      samples = Arr3 (example_sample 0) (example_sample m) (example_sample 0),
      report_marker = 0, unknown2 = 0, frame_timestamp = 0, unknown_zero1 = 0, frame_id = 0,
      unknown_zero2 = 0\<rparr>"

definition zero_buf :: "nat \<Rightarrow> 8 word" where
  "zero_buf = (\<lambda>i. 0)"

text \<open>A parser that accepts every buffer as the given report, a controller parser that
  accepts every buffer, and a system-state buffer with the proximity byte set.\<close>

definition parse_as ::
  "rift_s_hmd_report_t \<Rightarrow> (nat \<Rightarrow> 8 word) \<Rightarrow> int \<Rightarrow> rift_s_hmd_report_t option" where
  "parse_as report buf sz = Some report"

definition controller_ok :: "(nat \<Rightarrow> 8 word) \<Rightarrow> int \<Rightarrow> bool" where
  "controller_ok buf sz = True"

definition prox_buf :: "nat \<Rightarrow> 8 word" where
  "prox_buf i = (if i = 0 then 0x66 else 1)"

text \<open>The update call that the first sample of \<open>example_report 5000 m\<close> produces in
  \<open>opened_session\<close>, in the arithmetic \<open>exact_ops\<close>.\<close>

definition example_call :: "real fusion_call" where
  "example_call = (5001 / 1000000, Arr3 1000 0 0, Arr3 0 0 (980665 / 100000), Arr3 0 0 0)"

text \<open>The world after \<^verbatim>\<open>release_hmd\<close> on \<open>opened_world\<close>.\<close>

definition closed_world :: "(real fusion_call list, real) world" where
  "closed_world =
     \<lparr>heap = (\<lambda>a. None), next_ptr = 1, rift_hmds = [],
      trace = open_events @ [Hmd_enable 6 True, Hid_close 6, Hid_close 7, Hid_close 8]\<rparr>"

text \<open>A logical device with the id 1, an orientation readout and a caller's buffer.\<close>

definition controller_dev :: rift_s_device_priv where
  "controller_dev = \<lparr>dev_id = 1, dev_hmd = Some 0, opened = True\<rparr>"

definition unit_orient :: "real fusion_call list \<Rightarrow> quatf" where
  "unit_orient f = (0, 0, 0, 1)"

definition sevens :: "nat \<Rightarrow> real" where
  "sevens i = 7"

text \<open>A session for the arithmetic of terms: 1000 Hz, every scale, offset and matrix entry
  a literal of its own, so that the rows, the columns and the offsets can be told apart
  in a result. Its \<open>last_imu_timestamp\<close> is the value \<^verbatim>\<open>open_hmd\<close> stores.\<close>

definition symbolic_session :: "(fexpr fusion_call list, fexpr) rift_s_hmd_t" where
  "symbolic_session =
     \<lparr>use_count = 1, handles = Arr3 (Some 6) (Some 7) (Some 8), last_imu_timestamp = - 1,
      last_keep_alive = 0, sensor_fusion = [],
      raw_mag = zero_vec3f (Lit 0), raw_accel = zero_vec3f (Lit 0), raw_gyro = zero_vec3f (Lit 0),
      hmd_temperature = Lit 0, display_on = False,
      hmd_dev = \<lparr>dev_id = 0, dev_hmd = Some 0, opened = True\<rparr>,
      device_info = example_device_info,
      imu_config = \<lparr>cmd = 9, imu_hz = 1000, gyro_scale = Lit 2000, accel_scale = Lit 2048,
                    temperature_scale = Lit 2, temperature_offset = Lit 10\<rparr>,
      imu_calibration =
        \<lparr>accel_offset_at_0C = Arr3 (Lit 101) (Lit 102) (Lit 103),
         accel_rectification = Arr3 (Arr3 (Lit 11) (Lit 12) (Lit 13))
                                    (Arr3 (Lit 21) (Lit 22) (Lit 23))
                                    (Arr3 (Lit 31) (Lit 32) (Lit 33)),
         gyro_offset = Arr3 (Lit 201) (Lit 202) (Lit 203),
         gyro_rectification = Arr3 (Arr3 (Lit 41) (Lit 42) (Lit 43))
                                   (Arr3 (Lit 51) (Lit 52) (Lit 53))
                                   (Arr3 (Lit 61) (Lit 62) (Lit 63))\<rparr>\<rparr>"

text \<open>A report with the timestamp 5000 whose first sample is valid, with the raw
  accelerometer reading (1, 2, 3), the raw gyroscope reading (4, 5, 6) and the raw
  temperature 100, and whose second sample is invalid.\<close>

definition ramp_sample :: "8 word \<Rightarrow> rift_s_hmd_imu_sample_t" where
  "ramp_sample m = \<lparr>marker = m, accel = Arr3 1 2 3, gyro = Arr3 4 5 6, temperature = 100\<rparr>"

definition ramp_report :: rift_s_hmd_report_t where
  "ramp_report =
     \<lparr>report_id = 0x65, unknown_const1 = 0, timestamp = 5000,
      samples = Arr3 (ramp_sample 0) (ramp_sample 0x80) (ramp_sample 0),
      report_marker = 0, unknown2 = 0, frame_timestamp = 0, unknown_zero1 = 0, frame_id = 0,
      unknown_zero2 = 0\<rparr>"

text \<open>The two scale constants of \<open>symbolic_session\<close>, as terms.\<close>

definition symbolic_accel_scale :: fexpr where
  "symbolic_accel_scale = D2f (DDiv (DLit OHMD_GRAVITY_EARTH) (F2d (Lit 2048)))"

definition symbolic_gyro_scale :: fexpr where
  "symbolic_gyro_scale = D2f (DDiv (F2d (Lit 2000)) (DLit 32768))"


text \<open>The calls that \<open>ramp_report\<close> adds in \<open>symbolic_session\<close>, whose fusion state is
  empty before.\<close>

definition symbolic_calls :: "fexpr fusion_call list" where
  "symbolic_calls =
     sensor_fusion (handle_hmd_report symbolic_ops record_update (parse_as ramp_report)
        symbolic_session zero_buf 64)"

section \<open>Properties of the inertial sample pipeline\<close>

lemma vec3f_rotate_3x3_eq:
  "vec3f_rotate_3x3 ops (Arr3 a b c) rot =
     Arr3 (fadd ops (fadd ops (fmul ops (nth3 (nth3 rot 0) 0) a) (fmul ops (nth3 (nth3 rot 0) 1) b))
             (fmul ops (nth3 (nth3 rot 0) 2) c))
          (fadd ops (fadd ops (fmul ops (nth3 (nth3 rot 1) 0) a) (fmul ops (nth3 (nth3 rot 1) 1) b))
             (fmul ops (nth3 (nth3 rot 1) 2) c))
          (fadd ops (fadd ops (fmul ops (nth3 (nth3 rot 2) 0) a) (fmul ops (nth3 (nth3 rot 2) 1) b))
             (fmul ops (nth3 (nth3 rot 2) 2) c))"
  by (simp add: vec3f_rotate_3x3_def)

lemma sub_offset_eq:
  "sub_offset ops (Arr3 a b c) (Arr3 x y z) = Arr3 (fsub ops a x) (fsub ops b y) (fsub ops c z)"
  by (simp add: sub_offset_def)

lemma nth3_rotate:
  "i < 3 \<Longrightarrow>
   nth3 (vec3f_rotate_3x3 ops v rot) i
     = fadd ops (fadd ops (fmul ops (nth3 (nth3 rot i) 0) (nth3 v 0))
                          (fmul ops (nth3 (nth3 rot i) 1) (nth3 v 1)))
         (fmul ops (nth3 (nth3 rot i) 2) (nth3 v 2))"
proof -
  assume i: "i < 3"
  obtain a b c where v: "v = Arr3 a b c" by (cases v)
  from i have "i = 0 \<or> i = 1 \<or> i = 2" by arith
  then show ?thesis
    by (auto simp: v vec3f_rotate_3x3_eq)
qed

lemma nth3_sub_offset:
  "nth3 (sub_offset ops v off) j = fsub ops (nth3 v j) (nth3 off j)"
proof -
  obtain a b c where v: "v = Arr3 a b c" by (cases v)
  obtain x y z where off: "off = Arr3 x y z" by (cases off)
  show ?thesis by (simp add: v off sub_offset_eq)
qed

lemma process_sample_record:
  "sensor_fusion (process_sample ops record_update (gyro_scale_const ops priv)
       (accel_scale_const ops priv) ts tof priv dt s)
   = sensor_fusion priv @ [(dt, calibrated_gyro ops priv s, calibrated_accel ops priv s, raw_mag priv)]"
  by (simp add: process_sample_def record_update_def calibrated_gyro_def calibrated_accel_def Let_def)

lemma process_sample_fields:
  "imu_config (process_sample ops upd gs as ts tof priv dt s) = imu_config priv"
  "imu_calibration (process_sample ops upd gs as ts tof priv dt s) = imu_calibration priv"
  "raw_mag (process_sample ops upd gs as ts tof priv dt s) = raw_mag priv"
  "handles (process_sample ops upd gs as ts tof priv dt s) = handles priv"
  "use_count (process_sample ops upd gs as ts tof priv dt s) = use_count priv"
  "display_on (process_sample ops upd gs as ts tof priv dt s) = display_on priv"
  "hmd_temperature (process_sample ops upd gs as ts tof priv dt s)
     = fadd ops (fmul ops ts (fsub ops (f_of_int ops (sint (temperature s))) tof))
         (f_of_int ops 25)"
  by (simp_all add: process_sample_def Let_def)

lemma sample_loop_Cons:
  "sample_loop ops upd T gs as ts tof priv dt (s # rest) =
     (if valid_sample s
      then sample_loop ops upd T gs as ts tof (process_sample ops upd gs as ts tof priv dt s) T rest
      else priv)"
  by (simp add: valid_sample_def)

lemma calibrated_process_sample:
  "calibrated_gyro ops (process_sample ops upd gs as ts tof priv dt s) = calibrated_gyro ops priv"
  "calibrated_accel ops (process_sample ops upd gs as ts tof priv dt s) = calibrated_accel ops priv"
  by (simp_all add: fun_eq_iff calibrated_gyro_def calibrated_accel_def process_sample_fields
      gyro_scale_const_def accel_scale_const_def)

lemma sample_loop_record:
  assumes "gs = gyro_scale_const ops priv"
    and "as = accel_scale_const ops priv"
  shows "sensor_fusion (sample_loop ops record_update T gs as ts tof priv dt ss)
     = sensor_fusion priv @
       map (\<lambda>(d, s). (d, calibrated_gyro ops priv s, calibrated_accel ops priv s, raw_mag priv))
         (zip (dt # replicate (length ss) T) (takeWhile valid_sample ss))"
  using assms
proof (induction ss arbitrary: priv dt)
  case Nil
  then show ?case by simp
next
  case (Cons s ss)
  show ?case
  proof (cases "valid_sample s")
    case False
    then show ?thesis by (simp add: sample_loop_Cons del: sample_loop.simps)
  next
    case True
    let ?p = "process_sample ops record_update gs as ts tof priv dt s"
    have cfg: "gs = gyro_scale_const ops ?p"
      "as = accel_scale_const ops ?p"
      using Cons.prems
      by (simp_all add: process_sample_fields gyro_scale_const_def accel_scale_const_def)
    have step: "sensor_fusion ?p
        = sensor_fusion priv @ [(dt, calibrated_gyro ops priv s, calibrated_accel ops priv s, raw_mag priv)]"
      unfolding Cons.prems by (rule process_sample_record)
    have "sample_loop ops record_update T gs as ts tof priv dt (s # ss)
        = sample_loop ops record_update T gs as ts tof ?p T ss"
      using True by (simp add: sample_loop_Cons del: sample_loop.simps)
    then show ?thesis
      using Cons.IH [OF cfg, of T] True
      by (simp add: step calibrated_process_sample process_sample_fields)
  qed
qed

lemma sample_loop_temperature:
  "hmd_temperature (sample_loop ops upd T gs as ts tof priv dt ss)
     = (if takeWhile valid_sample ss = [] then hmd_temperature priv
        else fadd ops
               (fmul ops ts
                  (fsub ops (f_of_int ops (sint (temperature (last (takeWhile valid_sample ss)))))
                     tof))
               (f_of_int ops 25))"
proof (induction ss arbitrary: priv dt)
  case Nil
  then show ?case by simp
next
  case (Cons s ss)
  then show ?case
    by (simp add: sample_loop_Cons process_sample_fields del: sample_loop.simps)
qed

lemma sample_loop_fields:
  "last_imu_timestamp (sample_loop ops upd T gs as ts tof priv dt ss) = last_imu_timestamp priv"
  "imu_config (sample_loop ops upd T gs as ts tof priv dt ss) = imu_config priv"
  "handles (sample_loop ops upd T gs as ts tof priv dt ss) = handles priv"
  by (induction ss arbitrary: priv dt; simp add: process_sample_fields process_sample_def Let_def)+

lemma handle_hmd_report_calls:
  assumes "parse buf sz = Some report"
  shows "sensor_fusion (handle_hmd_report ops record_update parse priv buf sz)
     = sensor_fusion priv @
       map (\<lambda>(d, s). (d, calibrated_gyro ops priv s, calibrated_accel ops priv s, raw_mag priv))
         (zip ((if last_imu_timestamp priv \<noteq> 0
                then fdiv ops (f_of_int ops (uint (timestamp report - last_imu_timestamp priv))) (f_lit ops 1000000)
                else tick_len ops priv)
               # replicate 3 (tick_len ops priv))
           (takeWhile valid_sample (list3 (samples report))))"
proof -
  have len: "length (list3 (samples report)) = 3"
    by (cases "samples report") simp
  show ?thesis
    using assms
    by (simp add: handle_hmd_report_def Let_def sample_loop_record len tick_len_def
        gyro_scale_const_def accel_scale_const_def del: sample_loop.simps)
qed

lemma handle_hmd_report_timestamp:
  "parse buf sz = Some report \<Longrightarrow>
   last_imu_timestamp (handle_hmd_report ops upd parse priv buf sz) = timestamp report"
  by (simp add: handle_hmd_report_def Let_def)

lemma takeWhile_stops:
  assumes "i < length xs" and "\<not> P (xs ! i)"
  shows "length (takeWhile P xs) \<le> i"
proof (rule ccontr)
  assume "\<not> length (takeWhile P xs) \<le> i"
  then have lt: "i < length (takeWhile P xs)" by simp
  then have "takeWhile P xs ! i = xs ! i" by (rule takeWhile_nth)
  moreover have "takeWhile P xs ! i \<in> set (takeWhile P xs)" using lt by simp
  ultimately have "P (xs ! i)" by (metis set_takeWhileD)
  with assms show False by simp
qed

lemma nth3_list3: "i < 3 \<Longrightarrow> nth3 a i = list3 a ! i"
proof -
  assume i: "i < 3"
  obtain x y z where a: "a = Arr3 x y z" by (cases a)
  from i have "i = 0 \<or> i = 1 \<or> i = 2" by arith
  then show ?thesis by (auto simp: a)
qed

lemma length_list3: "length (list3 a) = 3"
  by (cases a) simp

lemma handle_hmd_report_nth:
  assumes p: "parse buf sz = Some report"
    and c: "sensor_fusion (handle_hmd_report ops record_update parse priv buf sz) = sensor_fusion priv @ calls"
  shows "length calls = length (takeWhile valid_sample (list3 (samples report)))"
    and "k < length calls \<Longrightarrow>
         k < 3 \<and> valid_sample (nth3 (samples report) k) \<and>
         calls ! k =
           (if k = 0
            then (if last_imu_timestamp priv \<noteq> 0
                  then fdiv ops (f_of_int ops (uint (timestamp report - last_imu_timestamp priv))) (f_lit ops 1000000)
                  else tick_len ops priv)
            else tick_len ops priv,
            calibrated_gyro ops priv (nth3 (samples report) k),
            calibrated_accel ops priv (nth3 (samples report) k), raw_mag priv)"
proof -
  let ?xs = "list3 (samples report)"
  let ?tw = "takeWhile valid_sample ?xs"
  let ?T = "tick_len ops priv"
  let ?d0 = "if last_imu_timestamp priv \<noteq> 0
             then fdiv ops (f_of_int ops (uint (timestamp report - last_imu_timestamp priv))) (f_lit ops 1000000) else ?T"
  let ?ds = "?d0 # replicate 3 ?T"
  let ?f = "\<lambda>(d, s). (d, calibrated_gyro ops priv s, calibrated_accel ops priv s, raw_mag priv)"
  have calls: "calls = map ?f (zip ?ds ?tw)"
    using handle_hmd_report_calls [where parse = parse and priv = priv and ops = ops, OF p] c by simp
  have le: "length ?tw \<le> 3"
    using length_takeWhile_le [of valid_sample ?xs] by (simp add: length_list3)
  show len: "length calls = length ?tw"
    using le by (simp add: calls)
  assume k: "k < length calls"
  then have ktw: "k < length ?tw" by (simp add: len)
  then have k3: "k < 3" using le by simp
  have tw_k: "?tw ! k = ?xs ! k" using ktw by (rule takeWhile_nth)
  have "?tw ! k \<in> set ?tw" using ktw by simp
  then have valid: "valid_sample (?xs ! k)" using tw_k by (metis set_takeWhileD)
  have dk: "?ds ! k = (if k = 0 then ?d0 else ?T)"
    using k3 by (cases k) simp_all
  have "calls ! k = ?f (?ds ! k, ?tw ! k)"
    using ktw k3 by (simp add: calls)
  then have "calls ! k = (if k = 0 then ?d0 else ?T,
      calibrated_gyro ops priv (?xs ! k), calibrated_accel ops priv (?xs ! k), raw_mag priv)"
    by (simp only: dk tw_k prod.case)
  then show "k < 3 \<and> valid_sample (nth3 (samples report) k) \<and>
         calls ! k = (if k = 0 then ?d0 else ?T,
            calibrated_gyro ops priv (nth3 (samples report) k),
            calibrated_accel ops priv (nth3 (samples report) k), raw_mag priv)"
    using k3 valid by (simp add: nth3_list3)
qed


lemmas pipeline_eval =
  handle_hmd_report_def parse_as_def example_report_def example_sample_def opened_session_def
  example_config_def example_calibration_def identity_mat3x3_def zero_vec3f_def
  process_sample_def record_update_def scaled_gyro_def scaled_accel_def sub_offset_def
  vec3f_rotate_3x3_def OHMD_GRAVITY_EARTH_def exact_ops_def Let_def

lemma first_report_eval:
  "sensor_fusion (handle_hmd_report exact_ops record_update (parse_as (example_report 5000 0))
      opened_session zero_buf 64)
   = [example_call,
      (1 / 1000, Arr3 1000 0 0, Arr3 0 0 (980665 / 100000), Arr3 0 0 0),
      (1 / 1000, Arr3 1000 0 0, Arr3 0 0 (980665 / 100000), Arr3 0 0 0)]"
  by (simp add: pipeline_eval example_call_def)

lemma first_report_invalid_eval:
  "sensor_fusion (handle_hmd_report exact_ops record_update (parse_as (example_report 5000 0x80))
      opened_session zero_buf 64)
   = sensor_fusion opened_session @ [example_call]"
  by (simp add: pipeline_eval example_call_def)

text \<open>What does hold of the intervals: when \<open>last_imu_timestamp\<close> is not 0, the first
  call of a report is integrated over the timestamp difference (modulo \<open>2^32\<close>), and
  every later call of the report over the tick length.\<close>

lemma report_dt_when_last_nonzero:
  assumes "parse buf sz = Some report"
    and "sensor_fusion (handle_hmd_report ops record_update parse priv buf sz)
           = sensor_fusion priv @ calls"
    and "k < length calls"
    and "last_imu_timestamp priv \<noteq> 0"
  shows "fst (calls ! k)
           = (if k = 0 then fdiv ops (f_of_int ops (uint (timestamp report - last_imu_timestamp priv))) (f_lit ops 1000000)
              else tick_len ops priv)"
  using handle_hmd_report_nth(2) [where parse = parse and priv = priv and ops = ops, OF assms(1,2,3)] assms(4)
  by simp

section \<open>Properties of polling: the read loop returns\<close>

text \<open>The loop on one handle returns as soon as the device answers one read with the
  size 0 or with an error.\<close>

lemma read_loop_returns:
  assumes "\<exists>r \<in> set rs. read_size r \<le> 0"
  shows "\<exists>res. read_loop ops upd parse parsec h priv buf rs = Some res"
  using assms
proof (induction rs arbitrary: priv buf)
  case Nil
  then show ?case by simp
next
  case (Cons r rs)
  show ?case
  proof (cases "read_size r \<le> 0")
    case True
    then show ?thesis by (auto simp: Let_def)
  next
    case False
    with Cons.prems have "\<exists>r \<in> set rs. read_size r \<le> 0" by simp
    note ih = Cons.IH [OF this]
    obtain priv' ev where d: "dispatch_report ops upd parse parsec priv (read_into buf r)
        (read_size r) = (priv', ev)"
      by (cases "dispatch_report ops upd parse parsec priv (read_into buf r) (read_size r)")
    obtain res where "read_loop ops upd parse parsec h priv' (read_into buf r) rs = Some res"
      using ih [of priv' "read_into buf r"] by blast
    then show ?thesis
      using False d by (cases res) (simp add: Let_def)
  qed
qed

section \<open>Properties of session management: helper evaluations\<close>

lemma open_device_first:
  "open_device ok_extern empty_world example_desc = Some (opened_world, Some 0)"
  by (simp add: open_device_def open_hmd_def ok_extern_def empty_world_def example_desc_def
      open_hid_dev_def interfaces_def OCULUS_VR_INC_ID_def RIFT_S_PID_def zeroed_hmd_def
      read_calibration_def push_hmd_def opened_world_def opened_session_def open_events_def
      Let_def fun_eq_iff)

lemma open_device_second:
  "open_device ok_extern opened_world example_desc = Some (opened_world, Some 0)"
  by (simp add: open_device_def opened_world_def example_desc_def opened_session_def fun_eq_iff)

lemma release_opened:
  "release_hmd ok_extern opened_world 0 = Some closed_world"
  by (simp add: release_hmd_def close_hmd_def close_hmd_events_def opened_world_def
      opened_session_def closed_world_def ok_extern_def fun_eq_iff)


section \<open>The claims\<close>

subsection \<open>C1: the interval of the first report\<close>

text \<open>
  Claim C1 says that the first head-motion report a session processes, while
  \<open>last_imu_timestamp\<close> still has the value \<^verbatim>\<open>open_hmd\<close> gave it, uses the tick length
  \<open>1 / imu_hz\<close> for its first sample. The code does not: \<^verbatim>\<open>open_hmd\<close> stores \<^verbatim>\<open>-1\<close>
  (\<^verbatim>\<open>0xFFFFFFFF\<close>), \<^verbatim>\<open>handle_hmd_report\<close> tests against 0, so the first report takes the
  branch of the timestamp difference. On the headset of 1000 Hz, opened by
  \<^verbatim>\<open>open_device\<close>, a first report with the timestamp 5000 and three valid samples is
  integrated over \<open>(5000 - 0xFFFFFFFF) mod 2^32 / 10^6 = 0.005001\<close> seconds, then twice
  over the tick length 0.001.
\<close>

theorem first_report_dt_is_timestamp_delta:
  "open_device ok_extern empty_world example_desc = Some (opened_world, Some 0)
   \<and> heap opened_world 0 = Some opened_session
   \<and> last_imu_timestamp opened_session = - 1
   \<and> imu_hz (imu_config opened_session) = 1000
   \<and> map fst (sensor_fusion (handle_hmd_report exact_ops record_update (parse_as (example_report 5000 0))
                 opened_session zero_buf 64))
       = [5001 / 1000000, 1 / 1000, 1 / 1000]"
  by (simp add: open_device_first first_report_eval example_call_def)
     (simp add: opened_world_def opened_session_def example_config_def)

subsection \<open>C2: the interval of the later reports\<close>

text \<open>
  Claim C2 says that the first sample of every report after the first uses
  \<open>(report.timestamp - last_timestamp) / 1000000\<close>, and that with 1000 Hz and the
  timestamps 0 then 5000 the second report starts with 0.005 seconds. The code gives
  0.001 there: the first report leaves \<open>last_imu_timestamp = 0\<close>, which is the value
  the test of \<^verbatim>\<open>handle_hmd_report\<close> takes for "no report yet", so the second report uses
  the tick length. The six intervals of the two reports, in order:
\<close>

theorem second_report_after_timestamp_zero_uses_tick:
  "last_imu_timestamp
     (handle_hmd_report exact_ops record_update (parse_as (example_report 0 0)) opened_session zero_buf 64) = 0
   \<and> map fst (sensor_fusion
        (handle_hmd_report exact_ops record_update (parse_as (example_report 5000 0))
           (handle_hmd_report exact_ops record_update (parse_as (example_report 0 0)) opened_session zero_buf 64)
           zero_buf 64))
       = [1 / 1000000, 1 / 1000, 1 / 1000, 1 / 1000, 1 / 1000, 1 / 1000]"
  by (simp add: pipeline_eval)

subsection \<open>C3: an invalid sample ends the report\<close>

text \<open>
  Claim C3: when sample \<open>i\<close> of a decoded report has bit \<^verbatim>\<open>0x80\<close> of its marker set,
  the fusion filter receives at most \<open>i\<close> calls for this report, call \<open>k\<close> is made of
  sample \<open>k < i\<close> (so neither sample \<open>i\<close> nor a later one is forwarded), and
  \<open>last_imu_timestamp\<close> is the report's timestamp afterwards. Proved for every
  \<open>i < 3\<close>, which covers the claim's \<open>i < 2\<close>.
\<close>

theorem invalid_marker_stops_forwarding:
  assumes "parse buf sz = Some report"
    and "i < 3"
    and "marker (nth3 (samples report) i) AND 0x80 \<noteq> 0"
  shows "\<exists>calls.
           sensor_fusion (handle_hmd_report ops record_update parse priv buf sz)
             = sensor_fusion priv @ calls
         \<and> length calls \<le> i
         \<and> (\<forall>k < length calls.
               k < i \<and> valid_sample (nth3 (samples report) k)
             \<and> fst (snd (calls ! k)) = calibrated_gyro ops priv (nth3 (samples report) k)
             \<and> fst (snd (snd (calls ! k))) = calibrated_accel ops priv (nth3 (samples report) k))
         \<and> last_imu_timestamp (handle_hmd_report ops record_update parse priv buf sz)
             = timestamp report"
proof -
  let ?xs = "list3 (samples report)"
  obtain calls where c: "sensor_fusion (handle_hmd_report ops record_update parse priv buf sz)
      = sensor_fusion priv @ calls"
    using handle_hmd_report_calls [where parse = parse and priv = priv and ops = ops, OF assms(1)] by blast
  have len: "length calls = length (takeWhile valid_sample ?xs)"
    using assms(1) c by (rule handle_hmd_report_nth(1))
  have "\<not> valid_sample (?xs ! i)"
    using assms(2,3) by (simp add: valid_sample_def nth3_list3)
  then have le: "length calls \<le> i"
    using takeWhile_stops [of i ?xs valid_sample] assms(2) by (simp add: len length_list3)
  have each: "\<forall>k < length calls.
               k < i \<and> valid_sample (nth3 (samples report) k)
             \<and> fst (snd (calls ! k)) = calibrated_gyro ops priv (nth3 (samples report) k)
             \<and> fst (snd (snd (calls ! k))) = calibrated_accel ops priv (nth3 (samples report) k)"
  proof (intro allI impI)
    fix k assume k: "k < length calls"
    from handle_hmd_report_nth(2) [where parse = parse and priv = priv and ops = ops, OF assms(1) c k] le k
    show "k < i \<and> valid_sample (nth3 (samples report) k)
             \<and> fst (snd (calls ! k)) = calibrated_gyro ops priv (nth3 (samples report) k)
             \<and> fst (snd (snd (calls ! k))) = calibrated_accel ops priv (nth3 (samples report) k)"
      by simp
  qed
  show ?thesis
    using c le each handle_hmd_report_timestamp [where parse = parse and priv = priv and ops = ops and upd = record_update, OF assms(1)] by blast
qed


text \<open>The theorem at a report whose second sample is invalid: one call, from sample 0.\<close>

theorem invalid_marker_stops_forwarding_witness:
  "parse_as (example_report 5000 0x80) zero_buf 64 = Some (example_report 5000 0x80)
   \<and> marker (nth3 (samples (example_report 5000 0x80)) 1) AND 0x80 \<noteq> 0
   \<and> sensor_fusion (handle_hmd_report exact_ops record_update (parse_as (example_report 5000 0x80))
        opened_session zero_buf 64) = sensor_fusion opened_session @ [example_call]
   \<and> (\<exists>calls.
           sensor_fusion (handle_hmd_report exact_ops record_update (parse_as (example_report 5000 0x80))
               opened_session zero_buf 64)
             = sensor_fusion opened_session @ calls
         \<and> length calls \<le> 1
         \<and> (\<forall>k < length calls.
               k < 1 \<and> valid_sample (nth3 (samples (example_report 5000 0x80)) k)
             \<and> fst (snd (calls ! k))
                 = calibrated_gyro exact_ops opened_session (nth3 (samples (example_report 5000 0x80)) k)
             \<and> fst (snd (snd (calls ! k)))
                 = calibrated_accel exact_ops opened_session (nth3 (samples (example_report 5000 0x80)) k))
         \<and> last_imu_timestamp (handle_hmd_report exact_ops record_update
               (parse_as (example_report 5000 0x80)) opened_session zero_buf 64)
             = timestamp (example_report 5000 0x80))"
proof -
  have h1: "parse_as (example_report 5000 0x80) zero_buf 64 = Some (example_report 5000 0x80)"
    by (simp add: parse_as_def)
  have h2: "(1::nat) < 3" by simp
  have h3: "marker (nth3 (samples (example_report 5000 0x80)) 1) AND 0x80 \<noteq> 0"
    by (simp add: example_report_def example_sample_def)
  show ?thesis
    using h1 h3 first_report_invalid_eval
      invalid_marker_stops_forwarding [where parse = "parse_as (example_report 5000 0x80)"
        and buf = zero_buf and sz = 64 and report = "example_report 5000 0x80" and i = 1
        and priv = opened_session, OF h1 h2 h3]
    by blast
qed

subsection \<open>C6: offset first, then rectification\<close>

text \<open>
  Claim C6: every call forwarded to the filter comes from a valid sample and carries, for
  the accelerometer and for the gyroscope alike, the vector whose component \<open>r\<close> is
  \<open>rot[r][0] * d[0] + rot[r][1] * d[1] + rot[r][2] * d[2]\<close> with
  \<open>d[j] = scaled[j] - offset[j]\<close>: the offset is subtracted from the scaled reading
  first, and row \<open>r\<close> of the rectification matrix is applied to the difference. The
  operations are those of the arithmetic \<open>ops\<close>, whatever it is, in the order the code
  applies them.
\<close>

theorem calibration_offset_then_rectify:
  assumes "parse buf sz = Some report"
    and "sensor_fusion (handle_hmd_report ops record_update parse priv buf sz)
           = sensor_fusion priv @ calls"
    and "k < length calls"
    and "r < 3"
  shows "valid_sample (nth3 (samples report) k)
       \<and> nth3 (fst (snd (snd (calls ! k)))) r
           = fadd ops
               (fadd ops
                  (fmul ops (nth3 (nth3 (accel_rectification (imu_calibration priv)) r) 0)
                     (fsub ops
                        (nth3 (scaled_accel ops (accel_scale_const ops priv)
                                 (nth3 (samples report) k)) 0)
                        (nth3 (accel_offset_at_0C (imu_calibration priv)) 0)))
                  (fmul ops (nth3 (nth3 (accel_rectification (imu_calibration priv)) r) 1)
                     (fsub ops
                        (nth3 (scaled_accel ops (accel_scale_const ops priv)
                                 (nth3 (samples report) k)) 1)
                        (nth3 (accel_offset_at_0C (imu_calibration priv)) 1))))
               (fmul ops (nth3 (nth3 (accel_rectification (imu_calibration priv)) r) 2)
                  (fsub ops
                     (nth3 (scaled_accel ops (accel_scale_const ops priv)
                              (nth3 (samples report) k)) 2)
                     (nth3 (accel_offset_at_0C (imu_calibration priv)) 2)))
       \<and> nth3 (fst (snd (calls ! k))) r
           = fadd ops
               (fadd ops
                  (fmul ops (nth3 (nth3 (gyro_rectification (imu_calibration priv)) r) 0)
                     (fsub ops
                        (nth3 (scaled_gyro ops (gyro_scale_const ops priv)
                                 (nth3 (samples report) k)) 0)
                        (nth3 (gyro_offset (imu_calibration priv)) 0)))
                  (fmul ops (nth3 (nth3 (gyro_rectification (imu_calibration priv)) r) 1)
                     (fsub ops
                        (nth3 (scaled_gyro ops (gyro_scale_const ops priv)
                                 (nth3 (samples report) k)) 1)
                        (nth3 (gyro_offset (imu_calibration priv)) 1))))
               (fmul ops (nth3 (nth3 (gyro_rectification (imu_calibration priv)) r) 2)
                  (fsub ops
                     (nth3 (scaled_gyro ops (gyro_scale_const ops priv)
                              (nth3 (samples report) k)) 2)
                     (nth3 (gyro_offset (imu_calibration priv)) 2)))"
  using handle_hmd_report_nth(2) [where parse = parse and priv = priv and ops = ops,
      OF assms(1,2,3)] assms(4)
  by (simp add: calibrated_gyro_def calibrated_accel_def nth3_rotate nth3_sub_offset)

text \<open>The theorem in the arithmetic of terms, on a session whose matrix entries and
  offsets are all different literals, at row 1 of the one call that \<open>ramp_report\<close>
  forwards. The accelerometer component is
  \<open>(21 * (c * 1 - 101) + 22 * (c * 2 - 102)) + 23 * (c * 3 - 103)\<close>: the entries of
  row 1 in column order, each times a difference of the scaled reading and the offset of
  that column. The offset is inside the products, and no entry of another row occurs.\<close>

theorem calibration_offset_then_rectify_witness:
  "parse_as ramp_report zero_buf 64 = Some ramp_report
   \<and> sensor_fusion (handle_hmd_report symbolic_ops record_update (parse_as ramp_report)
        symbolic_session zero_buf 64)
       = sensor_fusion symbolic_session @ symbolic_calls
   \<and> length symbolic_calls = 1
   \<and> valid_sample (nth3 (samples ramp_report) 0)
   \<and> nth3 (fst (snd (snd (symbolic_calls ! 0)))) 1
       = Add (Add (Mul (Lit 21) (Sub (Mul symbolic_accel_scale (Of_int 1)) (Lit 101)))
                  (Mul (Lit 22) (Sub (Mul symbolic_accel_scale (Of_int 2)) (Lit 102))))
             (Mul (Lit 23) (Sub (Mul symbolic_accel_scale (Of_int 3)) (Lit 103)))
   \<and> nth3 (fst (snd (symbolic_calls ! 0))) 1
       = Add (Add (Mul (Lit 51) (Sub (Mul symbolic_gyro_scale (Of_int 4)) (Lit 201)))
                  (Mul (Lit 52) (Sub (Mul symbolic_gyro_scale (Of_int 5)) (Lit 202))))
             (Mul (Lit 53) (Sub (Mul symbolic_gyro_scale (Of_int 6)) (Lit 203)))"
proof -
  have h1: "parse_as ramp_report zero_buf 64 = Some ramp_report"
    by (simp add: parse_as_def)
  have h2: "sensor_fusion (handle_hmd_report symbolic_ops record_update (parse_as ramp_report)
        symbolic_session zero_buf 64)
       = sensor_fusion symbolic_session @ symbolic_calls"
    by (simp add: symbolic_calls_def symbolic_session_def)
  have len: "length symbolic_calls = 1"
    using handle_hmd_report_nth(1) [OF h1 h2]
    by (simp add: ramp_report_def ramp_sample_def valid_sample_def)
  then have h3: "0 < length symbolic_calls" by simp
  have h4: "(1::nat) < 3" by simp
  note t = calibration_offset_then_rectify [where ops = symbolic_ops
      and parse = "parse_as ramp_report" and buf = zero_buf and sz = 64
      and report = ramp_report and priv = symbolic_session and calls = symbolic_calls
      and k = 0 and r = 1, OF h1 h2 h3 h4]
  have v: "valid_sample (nth3 (samples ramp_report) 0)"
    using t by blast
  have a: "nth3 (fst (snd (snd (symbolic_calls ! 0)))) 1
       = Add (Add (Mul (Lit 21) (Sub (Mul symbolic_accel_scale (Of_int 1)) (Lit 101)))
                  (Mul (Lit 22) (Sub (Mul symbolic_accel_scale (Of_int 2)) (Lit 102))))
             (Mul (Lit 23) (Sub (Mul symbolic_accel_scale (Of_int 3)) (Lit 103)))"
    using t
    by (simp add: symbolic_session_def symbolic_ops_def ramp_report_def ramp_sample_def
        scaled_accel_def accel_scale_const_def symbolic_accel_scale_def)
  have g: "nth3 (fst (snd (symbolic_calls ! 0))) 1
       = Add (Add (Mul (Lit 51) (Sub (Mul symbolic_gyro_scale (Of_int 4)) (Lit 201)))
                  (Mul (Lit 52) (Sub (Mul symbolic_gyro_scale (Of_int 5)) (Lit 202))))
             (Mul (Lit 53) (Sub (Mul symbolic_gyro_scale (Of_int 6)) (Lit 203)))"
    using t
    by (simp add: symbolic_session_def symbolic_ops_def ramp_report_def ramp_sample_def
        scaled_gyro_def gyro_scale_const_def symbolic_gyro_scale_def)
  show ?thesis
    using h1 h2 len v a g by blast
qed

subsection \<open>C7: the conversion to physical units\<close>

text \<open>
  Claim C7 gives the temperature as \<open>raw / temperature_scale - temperature_offset + 25\<close>.
  The code subtracts the offset before it scales:
  \<^verbatim>\<open>temperature_scale * (s->temperature - temperature_offset) + 25\<close> with
  \<^verbatim>\<open>temperature_scale = 1.0 / imu_config.temperature_scale\<close>, under a comment that says the
  line does not produce the right numbers. With the raw reading 100, the scale 2 and the
  offset 10 the session holds 70 (every intermediate value, 0.5, 90 and 45, is a
  \<^verbatim>\<open>float\<close>, so rounding plays no part), where the claim's formula gives 65. In the
  arithmetic of terms the same reading gives the term of \<open>(1 / 2) * (100 - 10) + 25\<close>.
  The gyroscope and accelerometer readings are scaled as the claim says.
\<close>

theorem temperature_offset_is_scaled:
  "hmd_temperature (handle_hmd_report exact_ops record_update (parse_as (example_report 5000 0))
       opened_session zero_buf 64) = 70
   \<and> real_of_int (sint (temperature (example_sample 0))) / temperature_scale example_config
       - temperature_offset example_config + 25 = 65
   \<and> hmd_temperature (handle_hmd_report symbolic_ops record_update (parse_as ramp_report)
       symbolic_session zero_buf 64)
       = Add (Mul (D2f (DDiv (DLit 1) (F2d (Lit 2)))) (Sub (Of_int 100) (Lit 10))) (Of_int 25)"
  by (simp add: pipeline_eval)
     (simp add: handle_hmd_report_def parse_as_def ramp_report_def ramp_sample_def
        symbolic_session_def symbolic_ops_def process_sample_def Let_def)

subsection \<open>C4: two acquisitions of one path\<close>

text \<open>
  Claim C4 says that a second acquisition of the same path gives the use count 2 and that
  only the release bringing the count to 0 tears the hardware down. The code opens the
  hardware once, as claimed, but \<^verbatim>\<open>open_device\<close> never increments \<^verbatim>\<open>use_count\<close>: after
  two calls for the same path the count is 1, the first \<^verbatim>\<open>release_hmd\<close> closes the three
  handles, frees the session and empties the list, and the second one works on freed
  memory.
\<close>

theorem second_open_device_keeps_use_count:
  "open_device ok_extern empty_world example_desc = Some (opened_world, Some 0)
   \<and> open_device ok_extern opened_world example_desc = Some (opened_world, Some 0)
   \<and> map_option use_count (heap opened_world 0) = Some 1
   \<and> release_hmd ok_extern opened_world 0 = Some closed_world
   \<and> heap closed_world 0 = None
   \<and> rift_hmds closed_world = []
   \<and> release_hmd ok_extern closed_world 0 = None"
  by (simp add: open_device_first open_device_second release_opened)
     (simp add: opened_world_def opened_session_def closed_world_def release_hmd_def)


subsection \<open>C5: the command sent on closing\<close>

text \<open>
  Claim C5 says that the last release sends a disable command, closes the three handles
  and removes the session from the list. The code closes the handles and removes the
  session, but the command \<^verbatim>\<open>close_hmd\<close> sends is \<^verbatim>\<open>rift_s_hmd_enable (handle, true)\<close>, the
  one \<^verbatim>\<open>open_hmd\<close> sends to enable the headset, under the warning text "Failed to disable
  Rift S"; no call with \<^verbatim>\<open>false\<close> is made.
\<close>

theorem close_hmd_sends_enable:
  "release_hmd ok_extern opened_world 0 = Some closed_world
   \<and> trace closed_world
       = trace opened_world @ [Hmd_enable 6 True, Hid_close 6, Hid_close 7, Hid_close 8]
   \<and> Hmd_enable 6 False \<notin> set (trace closed_world)"
  by (simp add: release_opened) (simp add: closed_world_def opened_world_def open_events_def)


subsection \<open>C8: the outcomes of a read\<close>




subsection \<open>C9: the display toggle\<close>

text \<open>
  Claim C9: on a system-state report (first byte \<^verbatim>\<open>0x66\<close>) the cached flag becomes the
  proximity flag \<open>buf[1] \<noteq> 0\<close>, one \<^verbatim>\<open>rift_s_set_screen_enable\<close> command with that flag
  is sent on the first handle when it differs from the cached flag and none when it does
  not; the same report handled again sends nothing.
\<close>

theorem display_toggle:
  assumes "buf 0 = 0x66"
  shows "dispatch_report ops upd parse parsec priv buf sz
           = (priv\<lparr>display_on := (buf 1 \<noteq> 0)\<rparr>,
              if (buf 1 \<noteq> 0) \<noteq> display_on priv
              then [Set_screen_enable (nth3 (handles priv) 0) (buf 1 \<noteq> 0)] else [])
       \<and> snd (dispatch_report ops upd parse parsec
                (fst (dispatch_report ops upd parse parsec priv buf sz)) buf sz) = []"
  using assms by (auto simp: dispatch_report_def Let_def)


text \<open>The theorem on the opened session, whose display flag is off, and a report with the
  proximity byte 1: one command, and none for the repeated report.\<close>

theorem display_toggle_witness:
  "prox_buf 0 = 0x66
   \<and> dispatch_report exact_ops record_update (parse_as (example_report 5000 0)) controller_ok
        opened_session prox_buf 2
       = (opened_session\<lparr>display_on := True\<rparr>, [Set_screen_enable (Some 6) True])
   \<and> snd (dispatch_report exact_ops record_update (parse_as (example_report 5000 0)) controller_ok
        (fst (dispatch_report exact_ops record_update (parse_as (example_report 5000 0)) controller_ok
               opened_session prox_buf 2)) prox_buf 2) = []"
proof -
  have h: "prox_buf 0 = 0x66" by (simp add: prox_buf_def)
  note t = display_toggle [where buf = prox_buf and ops = exact_ops and upd = record_update
        and parse = "parse_as (example_report 5000 0)" and parsec = controller_ok
        and priv = opened_session and sz = 2, OF h]
  have e: "dispatch_report exact_ops record_update (parse_as (example_report 5000 0)) controller_ok
        opened_session prox_buf 2
       = (opened_session\<lparr>display_on := True\<rparr>, [Set_screen_enable (Some 6) True])"
    using t by (simp add: prox_buf_def opened_session_def)
  show ?thesis
    using h e t by blast
qed

subsection \<open>C10: float queries on other devices\<close>

text \<open>
  Claim C10: \<^verbatim>\<open>getf\<close> on a logical device whose id is not 0 returns -1 for every value
  type and leaves the caller's buffer as it was; on the device 0 of a live session each
  of the value types \<^verbatim>\<open>getf_hmd\<close> handles returns 0.
\<close>

theorem getf_nonzero_id:
  "(dev_id dev_priv \<noteq> 0 \<longrightarrow> getf orient hp dev_priv type out = Some (- 1, out, []))
   \<and> (dev_id dev_priv = 0 \<and> dev_hmd dev_priv = Some p \<and> hp p = Some hmd
        \<and> (\<forall>n. type \<noteq> OHMD_OTHER_FLOAT_VALUE n)
      \<longrightarrow> (\<exists>out'. getf orient hp dev_priv type out = Some (0, out', [])))"
  by (cases type) (auto simp: getf_def getf_hmd_def split: prod.splits)


text \<open>The theorem on a device with the id 1, and on the device 0 of the opened session.\<close>

theorem getf_nonzero_id_witness:
  "dev_id controller_dev \<noteq> 0
   \<and> getf unit_orient (heap opened_world) controller_dev OHMD_ROTATION_QUAT sevens
       = Some (- 1, sevens, [])
   \<and> dev_id (hmd_dev opened_session) = 0
   \<and> (\<exists>out'. getf unit_orient (heap opened_world) (hmd_dev opened_session) OHMD_ROTATION_QUAT sevens
                = Some (0, out', []))"
proof -
  have h1: "dev_id controller_dev \<noteq> 0" by (simp add: controller_dev_def)
  have h2: "dev_id (hmd_dev opened_session) = 0 \<and> dev_hmd (hmd_dev opened_session) = Some 0
      \<and> heap opened_world 0 = Some opened_session
      \<and> (\<forall>n. OHMD_ROTATION_QUAT \<noteq> OHMD_OTHER_FLOAT_VALUE n)"
    by (simp add: opened_session_def opened_world_def)
  from h1 getf_nonzero_id [of controller_dev unit_orient "heap opened_world" OHMD_ROTATION_QUAT sevens]
  have a: "getf unit_orient (heap opened_world) controller_dev OHMD_ROTATION_QUAT sevens
       = Some (- 1, sevens, [])" by blast
  from h2 getf_nonzero_id [of "hmd_dev opened_session" unit_orient "heap opened_world"
      OHMD_ROTATION_QUAT sevens 0 opened_session]
  have b: "\<exists>out'. getf unit_orient (heap opened_world) (hmd_dev opened_session) OHMD_ROTATION_QUAT sevens
                = Some (0, out', [])" by blast
  show ?thesis using h1 h2 a b by blast
qed

end
